theory Spec2Isabelle
  imports Complex_Main "HOL-Library.Multiset"
begin

section \<open>JavaScript numbers\<close>

text \<open>
  The engine computes with JavaScript numbers. A number is modelled as a real or one of
  the three special values of the binary64 format. An arithmetic operation on finite
  values yields the real result, or the infinity of its sign when the magnitude of that
  result reaches \<open>2 ^ 1024 - 2 ^ 970\<close>, from where on binary64 rounds to an infinity.
  The rounding of a finite result to the nearest representable value is not part of
  the model, and zero carries no sign. A property that is read from an absent field
  (\<^verbatim>\<open>undefined\<close>) behaves as \<open>NaN\<close> in every operation used here: it is falsy, it
  compares false, and arithmetic converts it to \<open>NaN\<close>.
\<close>

datatype jsnum = Num real | NaN | PosInf | NegInf

text \<open>\<^verbatim>\<open>!v\<close>: zero and \<open>NaN\<close> are falsy.\<close>

fun js_not :: "jsnum \<Rightarrow> bool" where
  "js_not (Num r) = (r = 0)"
| "js_not NaN = True"
| "js_not PosInf = False"
| "js_not NegInf = False"

text \<open>\<^verbatim>\<open>a === b\<close> on numbers: \<open>NaN\<close> is equal to nothing.\<close>

fun js_seq :: "jsnum \<Rightarrow> jsnum \<Rightarrow> bool" where
  "js_seq NaN b = False"
| "js_seq a NaN = False"
| "js_seq a b = (a = b)"

fun js_neg :: "jsnum \<Rightarrow> jsnum" where
  "js_neg (Num r) = Num (- r)"
| "js_neg NaN = NaN"
| "js_neg PosInf = NegInf"
| "js_neg NegInf = PosInf"

text \<open>The infinity of a given sign.\<close>

definition js_signed_inf :: "bool \<Rightarrow> jsnum" where
  "js_signed_inf negative = (if negative then NegInf else PosInf)"

text \<open>
  The number that an operation with the real result \<open>r\<close> returns: an infinity from the
  overflow threshold on.
\<close>

definition js_overflow :: real where
  "js_overflow = 2 ^ 1024 - 2 ^ 970"

definition js_number :: "real \<Rightarrow> jsnum" where
  "js_number r = (if js_overflow \<le> \<bar>r\<bar> then js_signed_inf (r < 0) else Num r)"

text \<open>A range that lies well within the finite numbers.\<close>

definition safe_range :: real where
  "safe_range = 2 ^ 1023"

fun js_add :: "jsnum \<Rightarrow> jsnum \<Rightarrow> jsnum" where
  "js_add (Num a) (Num b) = js_number (a + b)"
| "js_add NaN b = NaN"
| "js_add a NaN = NaN"
| "js_add PosInf NegInf = NaN"
| "js_add NegInf PosInf = NaN"
| "js_add PosInf b = PosInf"
| "js_add NegInf b = NegInf"
| "js_add (Num a) b = b"

definition js_sub :: "jsnum \<Rightarrow> jsnum \<Rightarrow> jsnum" where
  "js_sub a b = js_add a (js_neg b)"

fun js_mul :: "jsnum \<Rightarrow> jsnum \<Rightarrow> jsnum" where
  "js_mul (Num a) (Num b) = js_number (a * b)"
| "js_mul NaN b = NaN"
| "js_mul a NaN = NaN"
| "js_mul PosInf (Num b) = (if b = 0 then NaN else js_signed_inf (b < 0))"
| "js_mul NegInf (Num b) = (if b = 0 then NaN else js_signed_inf (0 < b))"
| "js_mul (Num a) PosInf = (if a = 0 then NaN else js_signed_inf (a < 0))"
| "js_mul (Num a) NegInf = (if a = 0 then NaN else js_signed_inf (0 < a))"
| "js_mul PosInf PosInf = PosInf"
| "js_mul PosInf NegInf = NegInf"
| "js_mul NegInf PosInf = NegInf"
| "js_mul NegInf NegInf = PosInf"

text \<open>
  Division never raises in JavaScript: a finite value over zero is an infinity, and
  zero over zero is \<open>NaN\<close>.
\<close>

fun js_div :: "jsnum \<Rightarrow> jsnum \<Rightarrow> jsnum" where
  "js_div (Num a) (Num b) =
     (if b = 0 then (if a = 0 then NaN else js_signed_inf (a < 0)) else js_number (a / b))"
| "js_div NaN b = NaN"
| "js_div a NaN = NaN"
| "js_div (Num a) PosInf = Num 0"
| "js_div (Num a) NegInf = Num 0"
| "js_div PosInf (Num b) = js_signed_inf (b < 0)"
| "js_div NegInf (Num b) = js_signed_inf (\<not> b < 0)"
| "js_div PosInf PosInf = NaN"
| "js_div PosInf NegInf = NaN"
| "js_div NegInf PosInf = NaN"
| "js_div NegInf NegInf = NaN"

text \<open>\<^verbatim>\<open>a < b\<close>; every comparison with \<open>NaN\<close> is false.\<close>

fun js_lt :: "jsnum \<Rightarrow> jsnum \<Rightarrow> bool" where
  "js_lt (Num a) (Num b) = (a < b)"
| "js_lt NaN b = False"
| "js_lt a NaN = False"
| "js_lt a NegInf = False"
| "js_lt PosInf b = False"
| "js_lt (Num a) PosInf = True"
| "js_lt NegInf (Num b) = True"
| "js_lt NegInf PosInf = True"

definition js_gt :: "jsnum \<Rightarrow> jsnum \<Rightarrow> bool" where
  "js_gt a b = js_lt b a"

definition js_le :: "jsnum \<Rightarrow> jsnum \<Rightarrow> bool" where
  "js_le a b = (js_lt a b \<or> js_seq a b)"

definition js_ge :: "jsnum \<Rightarrow> jsnum \<Rightarrow> bool" where
  "js_ge a b = js_le b a"

text \<open>\<^verbatim>\<open>Math.max\<close> and \<^verbatim>\<open>Math.min\<close> of two arguments, and of a spread list.\<close>

definition js_max2 :: "jsnum \<Rightarrow> jsnum \<Rightarrow> jsnum" where
  "js_max2 a b = (if a = NaN \<or> b = NaN then NaN else if js_lt a b then b else a)"

definition js_min2 :: "jsnum \<Rightarrow> jsnum \<Rightarrow> jsnum" where
  "js_min2 a b = (if a = NaN \<or> b = NaN then NaN else if js_lt b a then b else a)"

definition Math_max :: "jsnum list \<Rightarrow> jsnum" where
  "Math_max xs = foldl js_max2 NegInf xs"

definition Math_min :: "jsnum list \<Rightarrow> jsnum" where
  "Math_min xs = foldl js_min2 PosInf xs"

section \<open>Utils\<close>

text \<open>\<^verbatim>\<open>clamp: (value, min, max) => Math.min(Math.max(value, min), max)\<close>\<close>

definition clamp :: "jsnum \<Rightarrow> jsnum \<Rightarrow> jsnum \<Rightarrow> jsnum" where
  "clamp v lo hi = js_min2 (js_max2 v lo) hi"

text \<open>\<^verbatim>\<open>growthRate: if (!oldVal || oldVal === 0) return 0; return ((newVal - oldVal) / oldVal) * 100\<close>\<close>

definition growthRate :: "jsnum \<Rightarrow> jsnum \<Rightarrow> jsnum" where
  "growthRate oldVal newVal =
     (if js_not oldVal \<or> js_seq oldVal (Num 0) then Num 0
      else js_mul (js_div (js_sub newVal oldVal) oldVal) (Num 100))"

text \<open>\<^verbatim>\<open>safeDivide: if (!b || b === 0) return 0; return a / b\<close>\<close>

definition safeDivide :: "jsnum \<Rightarrow> jsnum \<Rightarrow> jsnum" where
  "safeDivide a b = (if js_not b \<or> js_seq b (Num 0) then Num 0 else js_div a b)"

text \<open>\<^verbatim>\<open>isValidNumber: typeof val === 'number' && !isNaN(val) && isFinite(val)\<close>\<close>

fun isValidNumber :: "jsnum \<Rightarrow> bool" where
  "isValidNumber (Num r) = True"
| "isValidNumber v = False"

section \<open>Data model\<close>

record fiscal_year =
  fy :: string
  revenue :: jsnum
  netProfit :: jsnum
  totalDebt :: jsnum
  totalEquity :: jsnum
  marketCap :: jsnum

record company =
  company_name :: string
  ticker :: string
  sector :: string
  years :: "fiscal_year list"

text \<open>
  The metrics object. Its raw-value fields carry the prefix \<open>m_\<close>, since the fiscal
  record already owns the names.
\<close>

record metrics =
  profitMargin :: jsnum
  roe :: jsnum
  debtToEquity :: jsnum
  priceToEquity :: jsnum
  priceToSales :: jsnum
  m_revenue :: jsnum
  m_netProfit :: jsnum
  m_totalDebt :: jsnum
  m_totalEquity :: jsnum
  m_marketCap :: jsnum

text \<open>
  Reading a property of \<^verbatim>\<open>company.years[company.years.length - 1]\<close> throws a
  \<^verbatim>\<open>TypeError\<close> when the company has no fiscal record.
\<close>

datatype error = TypeError

section \<open>FinancialAnalyzer\<close>

definition calculateMetrics :: "company \<Rightarrow> error + metrics" where
  "calculateMetrics c =
     (case years c of
        [] \<Rightarrow> Inl TypeError
      | _ # _ \<Rightarrow>
          (let latestYear = last (years c) in
           Inr \<lparr> profitMargin = js_mul (safeDivide (netProfit latestYear) (revenue latestYear)) (Num 100),
                 roe = js_mul (safeDivide (netProfit latestYear) (totalEquity latestYear)) (Num 100),
                 debtToEquity = safeDivide (totalDebt latestYear) (totalEquity latestYear),
                 priceToEquity = safeDivide (marketCap latestYear) (totalEquity latestYear),
                 priceToSales = safeDivide (marketCap latestYear) (revenue latestYear),
                 m_revenue = revenue latestYear,
                 m_netProfit = netProfit latestYear,
                 m_totalDebt = totalDebt latestYear,
                 m_totalEquity = totalEquity latestYear,
                 m_marketCap = marketCap latestYear \<rparr>))"

text \<open>
  The four blocks of \<^verbatim>\<open>calculateHealthScore\<close>, each taking the running score and
  returning it updated, in the order of the source.
\<close>

definition health_margin :: "metrics \<Rightarrow> jsnum \<Rightarrow> jsnum" where
  "health_margin m score =
     (if js_gt (profitMargin m) (Num 20) then js_add score (Num 20)
      else if js_gt (profitMargin m) (Num 10) then js_add score (Num 15)
      else if js_gt (profitMargin m) (Num 5) then js_add score (Num 10)
      else if js_gt (profitMargin m) (Num 0) then js_add score (Num 5)
      else score)"

definition health_roe :: "metrics \<Rightarrow> jsnum \<Rightarrow> jsnum" where
  "health_roe m score =
     (if js_gt (roe m) (Num 20) then js_add score (Num 20)
      else if js_gt (roe m) (Num 15) then js_add score (Num 15)
      else if js_gt (roe m) (Num 10) then js_add score (Num 10)
      else if js_gt (roe m) (Num 5) then js_add score (Num 5)
      else score)"

definition health_debt :: "metrics \<Rightarrow> jsnum \<Rightarrow> jsnum" where
  "health_debt m score =
     (if js_lt (debtToEquity m) (Num 0.5) then js_add score (Num 30)
      else if js_lt (debtToEquity m) (Num 1) then js_add score (Num 20)
      else if js_lt (debtToEquity m) (Num 2) then js_add score (Num 10)
      else if js_lt (debtToEquity m) (Num 3) then js_add score (Num 5)
      else score)"

definition health_growth :: "company \<Rightarrow> jsnum \<Rightarrow> jsnum" where
  "health_growth c score =
     (if length (years c) \<ge> 2 then
        (let recentYear = years c ! (length (years c) - 1);
             prevYear = years c ! (length (years c) - 2);
             revenueGrowth = growthRate (revenue prevYear) (revenue recentYear);
             profitGrowth = growthRate (netProfit prevYear) (netProfit recentYear);
             score1 =
               (if js_gt revenueGrowth (Num 20) then js_add score (Num 15)
                else if js_gt revenueGrowth (Num 10) then js_add score (Num 10)
                else if js_gt revenueGrowth (Num 5) then js_add score (Num 5)
                else score)
         in if js_gt profitGrowth (Num 20) then js_add score1 (Num 15)
            else if js_gt profitGrowth (Num 10) then js_add score1 (Num 10)
            else if js_gt profitGrowth (Num 5) then js_add score1 (Num 5)
            else score1)
      else score)"

definition calculateHealthScore :: "company \<Rightarrow> error + jsnum" where
  "calculateHealthScore c =
     (case calculateMetrics c of
        Inl e \<Rightarrow> Inl e
      | Inr m \<Rightarrow>
          Inr (clamp (health_growth c (health_debt m (health_roe m (health_margin m (Num 0)))))
                 (Num 0) (Num 100)))"

datatype risk = Low | Medium | High

definition calculateRisk :: "company \<Rightarrow> error + risk" where
  "calculateRisk c =
     (case calculateMetrics c of
        Inl e \<Rightarrow> Inl e
      | Inr m \<Rightarrow>
          (let riskScore0 = Num 0;
               riskScore1 =
                 (if js_gt (debtToEquity m) (Num 3) then js_add riskScore0 (Num 45)
                  else if js_gt (debtToEquity m) (Num 2) then js_add riskScore0 (Num 30)
                  else if js_gt (debtToEquity m) (Num 1) then js_add riskScore0 (Num 15)
                  else riskScore0);
               riskScore2 =
                 (if js_lt (profitMargin m) (Num 0) then js_add riskScore1 (Num 40)
                  else if js_lt (profitMargin m) (Num 5) then js_add riskScore1 (Num 25)
                  else if js_lt (profitMargin m) (Num 10) then js_add riskScore1 (Num 10)
                  else riskScore1);
               riskScore3 =
                 (if js_gt (priceToEquity m) (Num 12) then js_add riskScore2 (Num 20)
                  else if js_gt (priceToEquity m) (Num 7) then js_add riskScore2 (Num 10)
                  else riskScore2)
           in Inr (if js_ge riskScore3 (Num 65) then High
                   else if js_ge riskScore3 (Num 35) then Medium
                   else Low)))"

section \<open>MLEngine\<close>

text \<open>\<^verbatim>\<open>normalize(value, min, max)\<close>\<close>

definition normalize :: "jsnum \<Rightarrow> jsnum \<Rightarrow> jsnum \<Rightarrow> jsnum" where
  "normalize v mn mx =
     (if js_seq mx mn then Num 0.5 else js_div (js_sub v mn) (js_sub mx mn))"

text \<open>
  \<^verbatim>\<open>this.companies.map(c => this.analyzer.calculateMetrics(c))\<close>: the first company
  without a fiscal record makes the whole call throw.
\<close>

fun allMetrics_of :: "company list \<Rightarrow> error + metrics list" where
  "allMetrics_of [] = Inr []"
| "allMetrics_of (c # cs) =
     (case calculateMetrics c of
        Inl e \<Rightarrow> Inl e
      | Inr m \<Rightarrow> (case allMetrics_of cs of Inl e \<Rightarrow> Inl e | Inr ms \<Rightarrow> Inr (m # ms)))"

text \<open>
  The engine is constructed over a population (\<^verbatim>\<open>this.companies\<close>), the first
  argument here. The weighted sum visits the four features in the order of their keys.
\<close>

definition calculateUndervaluationScore :: "company list \<Rightarrow> company \<Rightarrow> error + jsnum" where
  "calculateUndervaluationScore companies c =
     (case calculateMetrics c of
        Inl e \<Rightarrow> Inl e
      | Inr m \<Rightarrow>
          (case allMetrics_of companies of
             Inl e \<Rightarrow> Inl e
           | Inr allMetrics \<Rightarrow>
               (let peRatios = filter isValidNumber (map priceToEquity allMetrics);
                    margins = filter isValidNumber (map profitMargin allMetrics);
                    debtRatios = filter isValidNumber (map debtToEquity allMetrics);
                    peMin = Math_min peRatios;
                    peMax = Math_max peRatios;
                    marginMin = Math_min margins;
                    marginMax = Math_max margins;
                    debtMin = Math_min debtRatios;
                    debtMax = Math_max debtRatios;
                    valuationScore = js_sub (Num 1) (normalize (priceToEquity m) peMin peMax);
                    profitabilityScore = normalize (profitMargin m) marginMin marginMax;
                    debtScore = js_sub (Num 1) (normalize (debtToEquity m) debtMin debtMax);
                    roeScore = clamp (js_div (roe m) (Num 30)) (Num 0) (Num 1);
                    score =
                      foldl (\<lambda>score (feature, weight). js_add score (js_mul feature weight))
                        (Num 0)
                        [(valuationScore, Num 0.35), (profitabilityScore, Num 0.30),
                         (debtScore, Num 0.20), (roeScore, Num 0.15)]
                in Inr (clamp (js_mul score (Num 100)) (Num 0) (Num 100)))))"

text \<open>
  The counting loop \<^verbatim>\<open>for (let i = 1; i < xs.length; i++) if (xs[i].f > xs[i - 1].f) cnt++\<close>,
  started at \<open>i = 1\<close> with \<open>cnt = 0\<close>. It runs over the fiscal records with the
  field \<open>revenue\<close>, then with \<open>netProfit\<close>, and over the growth rates themselves.
\<close>

function count_increasing :: "('a \<Rightarrow> jsnum) \<Rightarrow> 'a list \<Rightarrow> nat \<Rightarrow> nat \<Rightarrow> nat" where
  "count_increasing f xs i cnt =
     (if i < length xs
      then count_increasing f xs (Suc i)
             (if js_gt (f (xs ! i)) (f (xs ! (i - 1))) then Suc cnt else cnt)
      else cnt)"
  by pat_completeness auto
termination
  by (relation "measure (\<lambda>(f, xs, i, cnt). length xs - i)") auto

declare count_increasing.simps [simp del]

text \<open>
  \<^verbatim>\<open>for (let i = 1; i < years.length; i++)
     revenueGrowthRates.push(Utils.growthRate(years[i - 1].revenue, years[i].revenue))\<close>
\<close>

function growth_rates_loop :: "fiscal_year list \<Rightarrow> nat \<Rightarrow> jsnum list \<Rightarrow> jsnum list" where
  "growth_rates_loop ys i rates =
     (if i < length ys
      then growth_rates_loop ys (Suc i)
             (rates @ [growthRate (revenue (ys ! (i - 1))) (revenue (ys ! i))])
      else rates)"
  by pat_completeness auto
termination
  by (relation "measure (\<lambda>(ys, i, rates). length ys - i)") auto

declare growth_rates_loop.simps [simp del]

text \<open>
  The counters and the lengths enter the arithmetic as finite numbers: the length of an
  array is below \<open>2 ^ 32\<close>.
\<close>

definition calculateMomentumScore :: "company \<Rightarrow> jsnum" where
  "calculateMomentumScore c =
     (if length (years c) < 3 then Num 50
      else
        (let ys = years c;
             revenueIncreasing = count_increasing revenue ys 1 0;
             revenueMomentum =
               js_div (Num (real revenueIncreasing)) (Num (real (length ys) - 1));
             profitIncreasing = count_increasing netProfit ys 1 0;
             profitMomentum =
               js_div (Num (real profitIncreasing)) (Num (real (length ys) - 1));
             revenueGrowthRates = growth_rates_loop ys 1 [];
             acceleration =
               (if length revenueGrowthRates \<ge> 2
                then js_div (Num (real (count_increasing (\<lambda>r. r) revenueGrowthRates 1 0)))
                       (Num (real (length revenueGrowthRates) - 1))
                else Num 0);
             score =
               js_add (js_add (js_mul revenueMomentum (Num 40)) (js_mul profitMomentum (Num 40)))
                 (js_mul acceleration (Num 20))
         in clamp (js_mul score (Num 100)) (Num 0) (Num 100)))"

text \<open>
  The regression that \<^verbatim>\<open>predict2026Revenue\<close> and \<^verbatim>\<open>predict2026Profit\<close> both
  spell out, over the series \<open>values\<close> of one field: the period indices
  \<^verbatim>\<open>company.years.map((y, i) => i)\<close> are the abscissae, the four sums are the
  \<^verbatim>\<open>reduce\<close> calls, and the result is the line evaluated at \<^verbatim>\<open>years.length\<close>.
\<close>

definition regression_next :: "jsnum list \<Rightarrow> jsnum" where
  "regression_next values =
     (let xs = map (\<lambda>i. Num (real i)) [0..<length values];
          n = Num (real (length xs));
          sumX = foldl (\<lambda>a b. js_add a b) (Num 0) xs;
          sumY = foldl (\<lambda>a b. js_add a b) (Num 0) values;
          sumXY = foldl (\<lambda>sum (x, i). js_add sum (js_mul x (values ! i))) (Num 0)
                    (zip xs [0..<length xs]);
          sumX2 = foldl (\<lambda>sum x. js_add sum (js_mul x x)) (Num 0) xs;
          slope = js_div (js_sub (js_mul n sumXY) (js_mul sumX sumY))
                    (js_sub (js_mul n sumX2) (js_mul sumX sumX));
          intercept = js_div (js_sub sumY (js_mul slope sumX)) n
      in js_add (js_mul slope (Num (real (length xs)))) intercept)"

text \<open>\<open>None\<close> is the \<^verbatim>\<open>null\<close> that the two predictions return on a short history.\<close>

definition predict2026Revenue :: "company \<Rightarrow> jsnum option" where
  "predict2026Revenue c =
     (if length (years c) < 3 then None
      else (let revenues = map revenue (years c);
                predictedRevenue = regression_next revenues
            in Some (js_max2 (Num 0) predictedRevenue)))"

definition predict2026Profit :: "company \<Rightarrow> jsnum option" where
  "predict2026Profit c =
     (if length (years c) < 3 then None
      else (let profits = map netProfit (years c);
                predictedProfit = regression_next profits
            in Some predictedProfit))"

datatype category = Undervalued | Overvalued | Growth | Stable | Neutral

record classification =
  category :: category
  confidence :: real

definition classifyCompany :: "company list \<Rightarrow> company \<Rightarrow> error + classification" where
  "classifyCompany companies c =
     (case calculateHealthScore c of
        Inl e \<Rightarrow> Inl e
      | Inr healthScore \<Rightarrow>
     (case calculateUndervaluationScore companies c of
        Inl e \<Rightarrow> Inl e
      | Inr undervalScore \<Rightarrow>
     (let momentum = calculateMomentumScore c in
     (case calculateRisk c of
        Inl e \<Rightarrow> Inl e
      | Inr risk \<Rightarrow>
     (case calculateMetrics c of
        Inl e \<Rightarrow> Inl e
      | Inr m \<Rightarrow>
          Inr (if js_gt undervalScore (Num 70) \<and> js_gt healthScore (Num 60)
               then \<lparr> category = Undervalued, confidence = 0.9 \<rparr>
               else if js_lt healthScore (Num 40)
                       \<and> (js_gt (debtToEquity m) (Num 3) \<or> js_lt (profitMargin m) (Num 0))
               then \<lparr> category = Overvalued, confidence = 0.85 \<rparr>
               else if js_gt momentum (Num 75) \<and> js_gt healthScore (Num 50)
               then \<lparr> category = Growth, confidence = 0.8 \<rparr>
               else if risk = Low \<and> js_gt (m_marketCap m) (Num 50000)
                       \<and> js_gt healthScore (Num 50)
               then \<lparr> category = Stable, confidence = 0.85 \<rparr>
               else \<lparr> category = Neutral, confidence = 0.5 \<rparr>))))))"

section \<open>Specification-side definitions and concrete inputs\<close>





text \<open>The single-record company of the concrete scenario.\<close>

definition scenario_company :: company where
  "scenario_company =
     \<lparr> company_name = ''Scenario'', ticker = ''SCN'', sector = ''Any'',
       years = [\<lparr> fy = ''FY2025'', revenue = Num 1000, netProfit = Num 100,
                  totalDebt = Num 200, totalEquity = Num 500, marketCap = Num 1500 \<rparr>] \<rparr>"

text \<open>
  The points that each bucket of the health score adds, as functions of the value that
  is bucketed. \<open>roe_points\<close> has the thresholds 20, 15, 10, 5; \<open>claimed_roe_points\<close> is
  the bucketing that reuses the thresholds of the profit margin (20, 10, 5, 0).
\<close>

definition margin_points :: "jsnum \<Rightarrow> real" where
  "margin_points v =
     (if js_gt v (Num 20) then 20 else if js_gt v (Num 10) then 15
      else if js_gt v (Num 5) then 10 else if js_gt v (Num 0) then 5 else 0)"

definition roe_points :: "jsnum \<Rightarrow> real" where
  "roe_points v =
     (if js_gt v (Num 20) then 20 else if js_gt v (Num 15) then 15
      else if js_gt v (Num 10) then 10 else if js_gt v (Num 5) then 5 else 0)"

definition claimed_roe_points :: "jsnum \<Rightarrow> real" where
  "claimed_roe_points v =
     (if js_gt v (Num 20) then 20 else if js_gt v (Num 10) then 15
      else if js_gt v (Num 5) then 10 else if js_gt v (Num 0) then 5 else 0)"

definition debt_points :: "jsnum \<Rightarrow> real" where
  "debt_points v =
     (if js_lt v (Num 0.5) then 30 else if js_lt v (Num 1) then 20
      else if js_lt v (Num 2) then 10 else if js_lt v (Num 3) then 5 else 0)"

definition growth_bucket :: "jsnum \<Rightarrow> real" where
  "growth_bucket g =
     (if js_gt g (Num 20) then 15 else if js_gt g (Num 10) then 10
      else if js_gt g (Num 5) then 5 else 0)"

definition growth_points :: "company \<Rightarrow> real" where
  "growth_points c =
     (if length (years c) < 2 then 0
      else growth_bucket (growthRate (revenue (years c ! (length (years c) - 2)))
                                     (revenue (years c ! (length (years c) - 1))))
         + growth_bucket (growthRate (netProfit (years c ! (length (years c) - 2)))
                                     (netProfit (years c ! (length (years c) - 1)))))"

text \<open>A company with a return on equity of 12 and no other contribution.\<close>

definition roe12_company :: company where
  "roe12_company =
     \<lparr> company_name = ''Twelve'', ticker = ''TWL'', sector = ''Any'',
       years = [\<lparr> fy = ''FY2025'', revenue = Num 0, netProfit = Num 12,
                  totalDebt = Num 300, totalEquity = Num 100, marketCap = Num 0 \<rparr>] \<rparr>"

text \<open>The order \<open>Low < Medium < High\<close> of the risk bands.\<close>

definition risk_rank :: "risk \<Rightarrow> nat" where
  "risk_rank r = (case r of Low \<Rightarrow> 0 | Medium \<Rightarrow> 1 | High \<Rightarrow> 2)"

text \<open>The three buckets of the risk score and the band of a score.\<close>

definition risk_debt_points :: "jsnum \<Rightarrow> real" where
  "risk_debt_points d =
     (if js_gt d (Num 3) then 45 else if js_gt d (Num 2) then 30
      else if js_gt d (Num 1) then 15 else 0)"

definition risk_margin_points :: "jsnum \<Rightarrow> real" where
  "risk_margin_points p =
     (if js_lt p (Num 0) then 40 else if js_lt p (Num 5) then 25
      else if js_lt p (Num 10) then 10 else 0)"

definition risk_valuation_points :: "jsnum \<Rightarrow> real" where
  "risk_valuation_points v =
     (if js_gt v (Num 12) then 20 else if js_gt v (Num 7) then 10 else 0)"

definition risk_band :: "real \<Rightarrow> risk" where
  "risk_band s = (if s \<ge> 65 then High else if s \<ge> 35 then Medium else Low)"

text \<open>The scenario company with ten times the debt.\<close>

definition leveraged_company :: company where
  "leveraged_company =
     \<lparr> company_name = ''Leveraged'', ticker = ''LEV'', sector = ''Any'',
       years = [\<lparr> fy = ''FY2025'', revenue = Num 1000, netProfit = Num 100,
                  totalDebt = Num 2000, totalEquity = Num 500, marketCap = Num 1500 \<rparr>] \<rparr>"

text \<open>
  The momentum score in the words of its description: \<open>increases vs\<close> counts the
  consecutive pairs of \<open>vs\<close> whose second value is greater than the first, and
  \<open>growth_rates vs\<close> lists the growth rate of every consecutive pair.
\<close>

definition increases :: "jsnum list \<Rightarrow> nat" where
  "increases vs = length (filter (\<lambda>(prev, cur). js_gt cur prev) (zip vs (tl vs)))"

definition growth_rates :: "jsnum list \<Rightarrow> jsnum list" where
  "growth_rates vs = map (\<lambda>(prev, cur). growthRate prev cur) (zip vs (tl vs))"

definition revenueMomentum :: "company \<Rightarrow> real" where
  "revenueMomentum c =
     real (increases (map revenue (years c))) / (real (length (years c)) - 1)"

definition profitMomentum :: "company \<Rightarrow> real" where
  "profitMomentum c =
     real (increases (map netProfit (years c))) / (real (length (years c)) - 1)"

definition acceleration :: "company \<Rightarrow> real" where
  "acceleration c =
     (let rates = growth_rates (map revenue (years c))
      in if length rates < 2 then 0
         else real (increases rates) / (real (length rates) - 1))"

definition composite :: "company \<Rightarrow> real" where
  "composite c = revenueMomentum c * 40 + profitMomentum c * 40 + acceleration c * 20"

text \<open>
  Three-period histories: one that grows and accelerates in every period, one that
  never moves. The growing company is also cheap, profitable and nearly free of debt.
\<close>

definition growing_company :: company where
  "growing_company =
     \<lparr> company_name = ''Growing'', ticker = ''GRW'', sector = ''Any'',
       years = [\<lparr> fy = ''FY2023'', revenue = Num 100, netProfit = Num 10,
                  totalDebt = Num 10, totalEquity = Num 100, marketCap = Num 100 \<rparr>,
                \<lparr> fy = ''FY2024'', revenue = Num 110, netProfit = Num 12,
                  totalDebt = Num 10, totalEquity = Num 100, marketCap = Num 100 \<rparr>,
                \<lparr> fy = ''FY2025'', revenue = Num 130, netProfit = Num 39,
                  totalDebt = Num 10, totalEquity = Num 100, marketCap = Num 100 \<rparr>] \<rparr>"

definition plain_year :: "real \<Rightarrow> fiscal_year" where
  "plain_year r =
     \<lparr> fy = ''FY'', revenue = Num r, netProfit = Num 10,
       totalDebt = Num 0, totalEquity = Num 100, marketCap = Num 100 \<rparr>"


text \<open>
  Forty-two periods: revenue halves once and then stays, profit never moves. The only
  growth-rate increase is the one from \<open>-50\<close> to \<open>0\<close>.
\<close>

definition slump_company :: company where
  "slump_company =
     \<lparr> company_name = ''Slump'', ticker = ''SLP'', sector = ''Any'',
       years = plain_year 100 # replicate 41 (plain_year 50) \<rparr>"

text \<open>
  The classifier in the words of its description: an ordered list of rules, each a
  condition with its outcome, of which the first whose condition holds decides; the
  neutral outcome is the default.
\<close>

definition classification_rules ::
  "jsnum \<Rightarrow> jsnum \<Rightarrow> jsnum \<Rightarrow> risk \<Rightarrow> metrics \<Rightarrow> (bool \<times> classification) list" where
  "classification_rules undervalScore healthScore momentum risk m =
     [(js_gt undervalScore (Num 70) \<and> js_gt healthScore (Num 60),
         \<lparr> category = Undervalued, confidence = 0.9 \<rparr>),
      (js_lt healthScore (Num 40)
         \<and> (js_gt (debtToEquity m) (Num 3) \<or> js_lt (profitMargin m) (Num 0)),
         \<lparr> category = Overvalued, confidence = 0.85 \<rparr>),
      (js_gt momentum (Num 75) \<and> js_gt healthScore (Num 50),
         \<lparr> category = Growth, confidence = 0.8 \<rparr>),
      (risk = Low \<and> js_gt (m_marketCap m) (Num 50000) \<and> js_gt healthScore (Num 50),
         \<lparr> category = Stable, confidence = 0.85 \<rparr>)]"

definition first_match :: "(bool \<times> 'a) list \<Rightarrow> 'a \<Rightarrow> 'a" where
  "first_match rules dflt = (case find fst rules of Some (b, r) \<Rightarrow> r | None \<Rightarrow> dflt)"

definition neutral_default :: classification where
  "neutral_default = \<lparr> category = Neutral, confidence = 0.5 \<rparr>"

text \<open>
  The forecast in the words of its description. The period indices \<open>0, \<dots>, n - 1\<close> are
  the abscissae of the series \<open>ys\<close>; \<open>sse ys a b\<close> is the sum of the squared residuals
  of the line \<open>a * x + b\<close>; the least-squares line has the closed-form slope and
  intercept of the normal equations, and the forecast is that line at the index \<open>n\<close>.
\<close>

definition sse :: "real list \<Rightarrow> real \<Rightarrow> real \<Rightarrow> real" where
  "sse ys a b = (\<Sum>i<length ys. (ys ! i - (a * real i + b))\<^sup>2)"

definition ols_slope :: "real list \<Rightarrow> real" where
  "ols_slope ys =
     (real (length ys) * (\<Sum>i<length ys. real i * ys ! i)
        - (\<Sum>i<length ys. real i) * (\<Sum>i<length ys. ys ! i))
     / (real (length ys) * (\<Sum>i<length ys. real i * real i)
        - (\<Sum>i<length ys. real i) * (\<Sum>i<length ys. real i))"

definition ols_intercept :: "real list \<Rightarrow> real" where
  "ols_intercept ys =
     ((\<Sum>i<length ys. ys ! i) - ols_slope ys * (\<Sum>i<length ys. real i)) / real (length ys)"

definition ols_forecast :: "real list \<Rightarrow> real" where
  "ols_forecast ys = ols_slope ys * real (length ys) + ols_intercept ys"

text \<open>
  Histories for which no step of the regression leaves the finite range: at most
  \<open>2 ^ 20\<close> periods of values of magnitude at most \<open>2 ^ 900\<close>.
\<close>

definition max_periods :: nat where
  "max_periods = 2 ^ 20"

definition max_value :: real where
  "max_value = 2 ^ 900"

text \<open>
  Finite values at the top of the binary64 range: a single record with a net profit of
  \<open>2 ^ 1023\<close> over a revenue and an equity of 1, and a three-period history whose
  revenue and profit are \<open>2 ^ 1023\<close> throughout.
\<close>

definition top_value :: real where
  "top_value = 2 ^ 1023"


definition saturated_company :: company where
  "saturated_company =
     \<lparr> company_name = ''Saturated'', ticker = ''SAT'', sector = ''Any'',
       years = [\<lparr> fy = ''FY2023'', revenue = Num top_value, netProfit = Num top_value,
                  totalDebt = Num 0, totalEquity = Num 1, marketCap = Num 0 \<rparr>,
                \<lparr> fy = ''FY2024'', revenue = Num top_value, netProfit = Num top_value,
                  totalDebt = Num 0, totalEquity = Num 1, marketCap = Num 0 \<rparr>,
                \<lparr> fy = ''FY2025'', revenue = Num top_value, netProfit = Num top_value,
                  totalDebt = Num 0, totalEquity = Num 1, marketCap = Num 0 \<rparr>] \<rparr>"

text \<open>A three-period history in decline.\<close>

definition declining_company :: company where
  "declining_company =
     \<lparr> company_name = ''Declining'', ticker = ''DCL'', sector = ''Any'',
       years = [\<lparr> fy = ''FY2023'', revenue = Num 30, netProfit = Num 30,
                  totalDebt = Num 10, totalEquity = Num 100, marketCap = Num 100 \<rparr>,
                \<lparr> fy = ''FY2024'', revenue = Num 20, netProfit = Num 20,
                  totalDebt = Num 10, totalEquity = Num 100, marketCap = Num 100 \<rparr>,
                \<lparr> fy = ''FY2025'', revenue = Num 1, netProfit = Num 1,
                  totalDebt = Num 10, totalEquity = Num 100, marketCap = Num 100 \<rparr>] \<rparr>"

section \<open>Properties\<close>

subsection \<open>Arithmetic on finite numbers\<close>

lemma js_overflow_lower: "safe_range \<le> js_overflow"
  by (simp add: js_overflow_def safe_range_def)

lemma js_number_Num: "\<bar>r\<bar> < safe_range \<Longrightarrow> js_number r = Num r"
  using js_overflow_lower by (simp add: js_number_def)

lemma js_number_small [simp]: "\<bar>r\<bar> \<le> 1000000 \<Longrightarrow> js_number r = Num r"
proof (rule js_number_Num)
  assume "\<bar>r\<bar> \<le> 1000000"
  moreover have "(1000000::real) < safe_range" by (simp add: safe_range_def)
  ultimately show "\<bar>r\<bar> < safe_range" by linarith
qed

lemma js_number_PosInf: "js_overflow \<le> r \<Longrightarrow> js_number r = PosInf"
proof -
  assume h: "js_overflow \<le> r"
  have "0 < js_overflow" by (simp add: js_overflow_def)
  with h have "\<not> r < 0" "js_overflow \<le> \<bar>r\<bar>" by simp_all
  then show ?thesis by (simp add: js_number_def js_signed_inf_def)
qed

lemma js_number_not_NaN [simp]: "js_number r \<noteq> NaN"
  by (simp add: js_number_def js_signed_inf_def)

lemma js_gt_Num [simp]: "js_gt (Num a) (Num b) = (b < a)"
  by (simp add: js_gt_def)

lemma js_ge_Num [simp]: "js_ge (Num a) (Num b) = (b \<le> a)"
  by (auto simp add: js_ge_def js_le_def)

lemma js_le_Num [simp]: "js_le (Num a) (Num b) = (a \<le> b)"
  by (auto simp add: js_le_def)

lemma js_sub_Num [simp]: "js_sub (Num a) (Num b) = js_number (a - b)"
  by (simp add: js_sub_def)

lemma js_max2_Num [simp]: "js_max2 (Num a) (Num b) = Num (max a b)"
  by (simp add: js_max2_def max_def)

lemma js_min2_Num [simp]: "js_min2 (Num a) (Num b) = Num (min a b)"
  by (auto simp add: js_min2_def min_def)

lemma clamp_Num [simp]: "clamp (Num v) (Num lo) (Num hi) = Num (min (max v lo) hi)"
  by (simp add: clamp_def)

lemma safeDivide_Num [simp]:
  "safeDivide (Num a) (Num b) = (if b = 0 then Num 0 else js_number (a / b))"
  by (simp add: safeDivide_def)

lemma growthRate_Num [simp]:
  "growthRate (Num a) (Num b)
   = (if a = 0 then Num 0 else js_mul (js_div (js_number (b - a)) (Num a)) (Num 100))"
  by (simp add: growthRate_def)

text \<open>A ratio of a count to a positive total, and the weighted sum of three ratios.\<close>

lemma ratio_Num:
  assumes "0 \<le> a" and "a \<le> d" and "0 < d"
  shows "js_div (Num a) (Num d) = Num (a / d)"
proof -
  from assms have "0 \<le> a / d" "a / d \<le> 1" by simp_all
  then have "\<bar>a / d\<bar> \<le> 1000000" by simp
  then have "js_number (a / d) = Num (a / d)" by (rule js_number_small)
  with assms(3) show ?thesis by simp
qed

lemma weighted_score_Num:
  assumes "0 \<le> x" "x \<le> 1" "0 \<le> y" "y \<le> 1" "0 \<le> z" "z \<le> 1"
  shows "js_mul (js_add (js_add (js_mul (Num x) (Num 40)) (js_mul (Num y) (Num 40)))
                   (js_mul (Num z) (Num 20))) (Num 100)
         = Num ((x * 40 + y * 40 + z * 20) * 100)"
proof -
  have 1: "js_mul (Num x) (Num 40) = Num (x * 40)"
    using assms by (simp add: js_number_small abs_mult)
  have 2: "js_mul (Num y) (Num 40) = Num (y * 40)"
    using assms by (simp add: js_number_small abs_mult)
  have 3: "js_mul (Num z) (Num 20) = Num (z * 20)"
    using assms by (simp add: js_number_small abs_mult)
  have 4: "js_add (Num (x * 40)) (Num (y * 40)) = Num (x * 40 + y * 40)"
    using assms by (intro trans [OF js_add.simps(1) js_number_small]) simp
  have 5: "js_add (Num (x * 40 + y * 40)) (Num (z * 20)) = Num (x * 40 + y * 40 + z * 20)"
    using assms by (intro trans [OF js_add.simps(1) js_number_small]) simp
  have 6: "js_mul (Num (x * 40 + y * 40 + z * 20)) (Num 100)
           = Num ((x * 40 + y * 40 + z * 20) * 100)"
    using assms by (intro trans [OF js_mul.simps(1) js_number_small]) simp
  show ?thesis
    by (simp only: 1 2 3 4 5 6)
qed





text \<open>
  A quotient of finite values is never \<open>NaN\<close>, and neither is a hundred times it; both
  are finite when the magnitude of the quotient is at most \<open>quotient_bound\<close>.
\<close>

lemma safeDivide_not_NaN: "safeDivide (Num a) (Num b) \<noteq> NaN"
  by simp




lemma calculateMetrics_nonempty:
  "years c \<noteq> [] \<Longrightarrow>
   calculateMetrics c =
     Inr \<lparr> profitMargin = js_mul (safeDivide (netProfit (last (years c))) (revenue (last (years c)))) (Num 100),
           roe = js_mul (safeDivide (netProfit (last (years c))) (totalEquity (last (years c)))) (Num 100),
           debtToEquity = safeDivide (totalDebt (last (years c))) (totalEquity (last (years c))),
           priceToEquity = safeDivide (marketCap (last (years c))) (totalEquity (last (years c))),
           priceToSales = safeDivide (marketCap (last (years c))) (revenue (last (years c))),
           m_revenue = revenue (last (years c)),
           m_netProfit = netProfit (last (years c)),
           m_totalDebt = totalDebt (last (years c)),
           m_totalEquity = totalEquity (last (years c)),
           m_marketCap = marketCap (last (years c)) \<rparr>"
  by (cases "years c") (simp_all add: calculateMetrics_def Let_def)

lemma calculateMetrics_empty: "years c = [] \<Longrightarrow> calculateMetrics c = Inl TypeError"
  by (simp add: calculateMetrics_def)






lemma top_value_number: "js_number top_value = Num top_value"
  by (simp add: js_number_def js_overflow_def top_value_def)

lemma top_value_overflow:
  "js_number (top_value * 100) = PosInf" "js_number (top_value + top_value) = PosInf"
  "js_number (2 * top_value) = PosInf"
  by (rule js_number_PosInf, simp add: js_overflow_def top_value_def)+

lemma top_value_nonzero [simp]: "top_value \<noteq> 0"
  by (simp add: top_value_def)





lemma health_margin_Num:
  "\<bar>s\<bar> \<le> 100 \<Longrightarrow> health_margin m (Num s) = Num (s + margin_points (profitMargin m))"
  by (simp add: health_margin_def margin_points_def)

lemma health_roe_Num:
  "\<bar>s\<bar> \<le> 100 \<Longrightarrow> health_roe m (Num s) = Num (s + roe_points (roe m))"
  by (simp add: health_roe_def roe_points_def)

lemma health_debt_Num:
  "\<bar>s\<bar> \<le> 100 \<Longrightarrow> health_debt m (Num s) = Num (s + debt_points (debtToEquity m))"
  by (simp add: health_debt_def debt_points_def)

lemma health_growth_Num:
  "\<bar>s\<bar> \<le> 100 \<Longrightarrow> health_growth c (Num s) = Num (s + growth_points c)"
  by (simp add: health_growth_def growth_points_def growth_bucket_def Let_def)

lemma margin_points_range: "0 \<le> margin_points v \<and> margin_points v \<le> 20"
  by (simp add: margin_points_def)

lemma roe_points_range: "0 \<le> roe_points v \<and> roe_points v \<le> 20"
  by (simp add: roe_points_def)

lemma debt_points_range: "0 \<le> debt_points v \<and> debt_points v \<le> 30"
  by (simp add: debt_points_def)

lemma growth_bucket_range: "0 \<le> growth_bucket v \<and> growth_bucket v \<le> 15"
  by (simp add: growth_bucket_def)

lemma growth_points_range: "0 \<le> growth_points c \<and> growth_points c \<le> 30"
proof (cases "length (years c) < 2")
  case True
  then show ?thesis by (simp add: growth_points_def)
next
  case False
  let ?a = "growth_bucket (growthRate (revenue (years c ! (length (years c) - 2)))
                                     (revenue (years c ! (length (years c) - 1))))"
  let ?b = "growth_bucket (growthRate (netProfit (years c ! (length (years c) - 2)))
                                     (netProfit (years c ! (length (years c) - 1))))"
  have "0 \<le> ?a \<and> ?a \<le> 15" "0 \<le> ?b \<and> ?b \<le> 15"
    by (rule growth_bucket_range)+
  moreover have "growth_points c = ?a + ?b"
    using False by (simp add: growth_points_def)
  ultimately show ?thesis by linarith
qed

lemma calculateHealthScore_sum:
  assumes "calculateMetrics c = Inr m"
  shows "calculateHealthScore c =
           Inr (Num (margin_points (profitMargin m) + roe_points (roe m)
                     + debt_points (debtToEquity m) + growth_points c))"
proof -
  let ?a = "margin_points (profitMargin m)"
  let ?b = "roe_points (roe m)"
  let ?d = "debt_points (debtToEquity m)"
  let ?g = "growth_points c"
  note r = margin_points_range [of "profitMargin m"] roe_points_range [of "roe m"]
    debt_points_range [of "debtToEquity m"] growth_points_range [of c]
  have 1: "health_margin m (Num 0) = Num ?a"
    using health_margin_Num [of 0 m] by simp
  have 2: "health_roe m (Num ?a) = Num (?a + ?b)"
    using r by (intro health_roe_Num) simp
  have 3: "health_debt m (Num (?a + ?b)) = Num (?a + ?b + ?d)"
    using r by (intro health_debt_Num) simp
  have 4: "health_growth c (Num (?a + ?b + ?d)) = Num (?a + ?b + ?d + ?g)"
    using r by (intro health_growth_Num) simp
  have "0 \<le> ?a + ?b + ?d + ?g \<and> ?a + ?b + ?d + ?g \<le> 100"
    using r by linarith
  then have "min (max (?a + ?b + ?d + ?g) 0) 100 = ?a + ?b + ?d + ?g" by simp
  then show ?thesis
    using assms by (simp add: calculateHealthScore_def 1 2 3 4)
qed

text \<open>
  Claim C2, as amended. The return on equity adds 20 points above 20, else 15 above 15,
  else 10 above 10, else 5 above 5, else nothing: the point values are those of the
  profit margin, the thresholds are not. The block adds these points to whatever the
  running score is, and the health score is the sum of the four contributions.
\<close>

theorem roe_bucket_thresholds:
  "calculateMetrics c = Inr m \<Longrightarrow>
   health_roe m (Num s)
     = (if roe_points (roe m) = 0 then Num s else js_add (Num s) (Num (roe_points (roe m))))
   \<and> (\<bar>s\<bar> \<le> 100 \<longrightarrow> health_roe m (Num s) = Num (s + roe_points (roe m)))
   \<and> calculateHealthScore c =
       Inr (Num (margin_points (profitMargin m) + roe_points (roe m)
                 + debt_points (debtToEquity m) + growth_points c))"
proof (intro conjI impI)
  show "health_roe m (Num s)
        = (if roe_points (roe m) = 0 then Num s else js_add (Num s) (Num (roe_points (roe m))))"
    by (simp add: health_roe_def roe_points_def)
  show "health_roe m (Num s) = Num (s + roe_points (roe m))" if "\<bar>s\<bar> \<le> 100"
    using that by (rule health_roe_Num)
  show "calculateHealthScore c =
       Inr (Num (margin_points (profitMargin m) + roe_points (roe m)
                 + debt_points (debtToEquity m) + growth_points c))"
    if "calculateMetrics c = Inr m"
    using that by (rule calculateHealthScore_sum)
qed

lemma roe12_metrics:
  "calculateMetrics roe12_company =
     Inr \<lparr> profitMargin = Num 0, roe = Num 12, debtToEquity = Num 3, priceToEquity = Num 0,
           priceToSales = Num 0, m_revenue = Num 0, m_netProfit = Num 12,
           m_totalDebt = Num 300, m_totalEquity = Num 100, m_marketCap = Num 0 \<rparr>"
  by (simp add: roe12_company_def calculateMetrics_def)

theorem roe_bucket_thresholds_witness:
  "calculateMetrics roe12_company =
     Inr \<lparr> profitMargin = Num 0, roe = Num 12, debtToEquity = Num 3, priceToEquity = Num 0,
           priceToSales = Num 0, m_revenue = Num 0, m_netProfit = Num 12,
           m_totalDebt = Num 300, m_totalEquity = Num 100, m_marketCap = Num 0 \<rparr>
   \<and> \<bar>0 :: real\<bar> \<le> 100
   \<and> health_roe \<lparr> profitMargin = Num 0, roe = Num 12, debtToEquity = Num 3, priceToEquity = Num 0,
           priceToSales = Num 0, m_revenue = Num 0, m_netProfit = Num 12,
           m_totalDebt = Num 300, m_totalEquity = Num 100, m_marketCap = Num 0 \<rparr> (Num 0) = Num 10
   \<and> calculateHealthScore roe12_company = Inr (Num 10)"
proof -
  have len: "length (years roe12_company) = 1"
    by (simp add: roe12_company_def)
  note t = roe_bucket_thresholds [OF roe12_metrics, of 0]
  from t have "calculateHealthScore roe12_company = Inr (Num 10)"
    by (simp add: margin_points_def roe_points_def debt_points_def growth_points_def len)
  moreover from t
  have "health_roe \<lparr> profitMargin = Num 0, roe = Num 12, debtToEquity = Num 3,
           priceToEquity = Num 0, priceToSales = Num 0, m_revenue = Num 0, m_netProfit = Num 12,
           m_totalDebt = Num 300, m_totalEquity = Num 100, m_marketCap = Num 0 \<rparr> (Num 0) = Num 10"
    by (simp add: roe_points_def)
  ultimately show ?thesis
    using roe12_metrics by simp
qed

text \<open>
  Claim C2 as stated fails: with a return on equity of 12 and nothing else contributing,
  the health score is 10, where the thresholds of the profit margin would give 15.
\<close>

theorem roe_same_as_margin_counterexample:
  "calculateMetrics roe12_company =
     Inr \<lparr> profitMargin = Num 0, roe = Num 12, debtToEquity = Num 3, priceToEquity = Num 0,
           priceToSales = Num 0, m_revenue = Num 0, m_netProfit = Num 12,
           m_totalDebt = Num 300, m_totalEquity = Num 100, m_marketCap = Num 0 \<rparr>
   \<and> health_roe \<lparr> profitMargin = Num 0, roe = Num 12, debtToEquity = Num 3, priceToEquity = Num 0,
           priceToSales = Num 0, m_revenue = Num 0, m_netProfit = Num 12,
           m_totalDebt = Num 300, m_totalEquity = Num 100, m_marketCap = Num 0 \<rparr> (Num 0) = Num 10
   \<and> claimed_roe_points (Num 12) = 15
   \<and> calculateHealthScore roe12_company = Inr (Num 10)
   \<and> calculateHealthScore roe12_company \<noteq> Inr (Num (claimed_roe_points (Num 12)))"
  by (simp add: roe12_metrics calculateHealthScore_def health_margin_def health_roe_def
      health_debt_def health_growth_def claimed_roe_points_def)
    (simp add: roe12_company_def)

lemma scenario_metrics:
  "calculateMetrics \<lparr> company_name = nm, ticker = tk, sector = sc,
       years = [\<lparr> fy = f, revenue = Num 1000, netProfit = Num 100,
                  totalDebt = Num 200, totalEquity = Num 500, marketCap = Num 1500 \<rparr>] \<rparr>
   = Inr \<lparr> profitMargin = Num 10, roe = Num 20, debtToEquity = Num 0.4, priceToEquity = Num 3,
           priceToSales = Num 1.5, m_revenue = Num 1000, m_netProfit = Num 100,
           m_totalDebt = Num 200, m_totalEquity = Num 500, m_marketCap = Num 1500 \<rparr>"
  by (simp add: calculateMetrics_def)

text \<open>
  Claim C3, as amended. The single record with revenue 1000, net profit 100, debt 200,
  equity 500 and market capitalisation 1500 has profit margin 10, return on equity 20,
  debt to equity 0.4, price to equity 3 and price to sales 1.5; its health score is 55:
  10 for the margin (10 is not above 10), 15 for the return on equity (20 is not above
  20), 30 for the leverage and nothing for growth.
\<close>

theorem scenario_health_55:
  "calculateMetrics \<lparr> company_name = nm, ticker = tk, sector = sc,
       years = [\<lparr> fy = f, revenue = Num 1000, netProfit = Num 100,
                  totalDebt = Num 200, totalEquity = Num 500, marketCap = Num 1500 \<rparr>] \<rparr>
   = Inr \<lparr> profitMargin = Num 10, roe = Num 20, debtToEquity = Num 0.4, priceToEquity = Num 3,
           priceToSales = Num 1.5, m_revenue = Num 1000, m_netProfit = Num 100,
           m_totalDebt = Num 200, m_totalEquity = Num 500, m_marketCap = Num 1500 \<rparr>
   \<and> margin_points (Num 10) = 10 \<and> roe_points (Num 20) = 15 \<and> debt_points (Num 0.4) = 30
   \<and> growth_points \<lparr> company_name = nm, ticker = tk, sector = sc,
       years = [\<lparr> fy = f, revenue = Num 1000, netProfit = Num 100,
                  totalDebt = Num 200, totalEquity = Num 500, marketCap = Num 1500 \<rparr>] \<rparr> = 0
   \<and> calculateHealthScore \<lparr> company_name = nm, ticker = tk, sector = sc,
       years = [\<lparr> fy = f, revenue = Num 1000, netProfit = Num 100,
                  totalDebt = Num 200, totalEquity = Num 500, marketCap = Num 1500 \<rparr>] \<rparr>
     = Inr (Num 55)"
  by (simp add: calculateHealthScore_sum [OF scenario_metrics] scenario_metrics
      margin_points_def roe_points_def debt_points_def growth_points_def)

text \<open>Claim C3 as stated fails: the health score of the scenario is 55, not 60.\<close>

theorem scenario_health_60_counterexample:
  "calculateHealthScore scenario_company = Inr (Num 55)
   \<and> calculateHealthScore scenario_company \<noteq> Inr (Num 60)"
  by (simp add: scenario_company_def calculateHealthScore_sum [OF scenario_metrics]
      margin_points_def roe_points_def debt_points_def growth_points_def)

subsection \<open>Risk level\<close>

lemma calculateRisk_sum:
  "calculateMetrics c = Inr m \<Longrightarrow>
   calculateRisk c =
     Inr (risk_band (risk_debt_points (debtToEquity m) + risk_margin_points (profitMargin m)
                     + risk_valuation_points (priceToEquity m)))"
  by (simp add: calculateRisk_def Let_def risk_band_def risk_debt_points_def
      risk_margin_points_def risk_valuation_points_def)

lemma risk_debt_points_mono:
  "js_le d1 d2 \<Longrightarrow> risk_debt_points d1 \<le> risk_debt_points d2"
  by (cases d1; cases d2) (auto simp: risk_debt_points_def js_le_def js_gt_def)

lemma risk_band_mono: "s \<le> t \<Longrightarrow> risk_rank (risk_band s) \<le> risk_rank (risk_band t)"
  by (simp add: risk_band_def risk_rank_def)

text \<open>
  Claim C8. Of two companies whose profit margin and price to equity agree, the one with
  the higher (or equal) debt to equity has a risk band at least as severe, in the order
  \<open>Low < Medium < High\<close>.
\<close>

theorem risk_monotone_in_debtToEquity:
  assumes "calculateMetrics c1 = Inr m1" and "calculateMetrics c2 = Inr m2"
    and "profitMargin m1 = profitMargin m2" and "priceToEquity m1 = priceToEquity m2"
    and "js_le (debtToEquity m1) (debtToEquity m2)"
  shows "\<exists>r1 r2. calculateRisk c1 = Inr r1 \<and> calculateRisk c2 = Inr r2
                 \<and> risk_rank r1 \<le> risk_rank r2"
proof -
  let ?s1 = "risk_debt_points (debtToEquity m1) + risk_margin_points (profitMargin m1)
             + risk_valuation_points (priceToEquity m1)"
  let ?s2 = "risk_debt_points (debtToEquity m2) + risk_margin_points (profitMargin m2)
             + risk_valuation_points (priceToEquity m2)"
  have "?s1 \<le> ?s2"
    using risk_debt_points_mono [OF assms(5)] assms(3,4) by simp
  then have "risk_rank (risk_band ?s1) \<le> risk_rank (risk_band ?s2)"
    by (rule risk_band_mono)
  then show ?thesis
    using calculateRisk_sum [OF assms(1)] calculateRisk_sum [OF assms(2)] by blast
qed

lemma scenario_company_metrics:
  "calculateMetrics scenario_company =
     Inr \<lparr> profitMargin = Num 10, roe = Num 20, debtToEquity = Num 0.4, priceToEquity = Num 3,
           priceToSales = Num 1.5, m_revenue = Num 1000, m_netProfit = Num 100,
           m_totalDebt = Num 200, m_totalEquity = Num 500, m_marketCap = Num 1500 \<rparr>"
  unfolding scenario_company_def by (rule scenario_metrics)

lemma leveraged_company_metrics:
  "calculateMetrics leveraged_company =
     Inr \<lparr> profitMargin = Num 10, roe = Num 20, debtToEquity = Num 4, priceToEquity = Num 3,
           priceToSales = Num 1.5, m_revenue = Num 1000, m_netProfit = Num 100,
           m_totalDebt = Num 2000, m_totalEquity = Num 500, m_marketCap = Num 1500 \<rparr>"
  by (simp add: leveraged_company_def calculateMetrics_def)

theorem risk_monotone_in_debtToEquity_witness:
  "js_le (Num 0.4) (Num 4)
   \<and> calculateRisk scenario_company = Inr Low \<and> calculateRisk leveraged_company = Inr Medium
   \<and> risk_rank Low \<le> risk_rank Medium"
proof -
  have low: "calculateRisk scenario_company = Inr Low"
    by (simp add: calculateRisk_sum [OF scenario_company_metrics] risk_band_def
        risk_debt_points_def risk_margin_points_def risk_valuation_points_def)
  have med: "calculateRisk leveraged_company = Inr Medium"
    by (simp add: calculateRisk_sum [OF leveraged_company_metrics] risk_band_def
        risk_debt_points_def risk_margin_points_def risk_valuation_points_def)
  from risk_monotone_in_debtToEquity [OF scenario_company_metrics leveraged_company_metrics]
  have "\<exists>r1 r2. calculateRisk scenario_company = Inr r1 \<and> calculateRisk leveraged_company = Inr r2
                 \<and> risk_rank r1 \<le> risk_rank r2"
    by simp
  with low med show ?thesis by simp
qed

subsection \<open>Undervaluation score\<close>

lemma js_min2_PosInf [simp]: "js_min2 PosInf (Num a) = Num a"
  by (simp add: js_min2_def)

lemma js_max2_NegInf [simp]: "js_max2 NegInf (Num a) = Num a"
  by (simp add: js_max2_def)





lemma allMetrics_of_char:
  "allMetrics_of cs =
     (if \<exists>c \<in> set cs. years c = [] then Inl TypeError
      else Inr (map (\<lambda>c. projr (calculateMetrics c)) cs))"
proof (induction cs)
  case Nil
  show ?case by simp
next
  case (Cons c cs)
  show ?case
  proof (cases "years c = []")
    case True
    then show ?thesis by (simp add: calculateMetrics_empty)
  next
    case False
    then show ?thesis
      using Cons.IH by (simp add: calculateMetrics_nonempty)
  qed
qed












subsection \<open>Momentum score\<close>

lemma increases_Cons2:
  "increases (a # b # vs) = (if js_gt b a then 1 else 0) + increases (b # vs)"
  by (simp add: increases_def)

lemma increases_short [simp]: "length vs \<le> 1 \<Longrightarrow> increases vs = 0"
  by (cases vs) (simp_all add: increases_def)

lemma growth_rates_Cons2:
  "growth_rates (a # b # vs) = growthRate a b # growth_rates (b # vs)"
  by (simp add: growth_rates_def)

lemma growth_rates_short [simp]: "length vs \<le> 1 \<Longrightarrow> growth_rates vs = []"
  by (cases vs) (simp_all add: growth_rates_def)

lemma length_growth_rates [simp]: "length (growth_rates vs) = length vs - 1"
  by (simp add: growth_rates_def)

lemma increases_le: "increases vs \<le> length vs - 1"
proof -
  have "increases vs \<le> length (zip vs (tl vs))"
    unfolding increases_def by (rule length_filter_le)
  then show ?thesis by simp
qed

lemma drop_pred_split:
  assumes "1 \<le> i" and "i < length vs"
  shows "drop (i - 1) vs = vs ! (i - 1) # vs ! i # drop (Suc i) vs"
proof -
  from assms have "i - 1 < length vs" by simp
  then have "drop (i - 1) vs = vs ! (i - 1) # drop (Suc (i - 1)) vs"
    by (simp add: Cons_nth_drop_Suc)
  also have "Suc (i - 1) = i" using assms by simp
  also have "drop i vs = vs ! i # drop (Suc i) vs"
    using assms by (simp add: Cons_nth_drop_Suc)
  finally show ?thesis .
qed

lemma increases_drop_step:
  assumes "1 \<le> i" and "i < length vs"
  shows "increases (drop (i - 1) vs)
         = (if js_gt (vs ! i) (vs ! (i - 1)) then 1 else 0) + increases (drop i vs)"
proof -
  have a: "drop (i - 1) vs = vs ! (i - 1) # vs ! i # drop (Suc i) vs"
    using assms by (rule drop_pred_split)
  have b: "drop i vs = vs ! i # drop (Suc i) vs"
    using assms(2) by (simp add: Cons_nth_drop_Suc)
  show ?thesis
    by (simp only: a b increases_Cons2)
qed

lemma growth_rates_drop_step:
  assumes "1 \<le> i" and "i < length vs"
  shows "growth_rates (drop (i - 1) vs)
         = growthRate (vs ! (i - 1)) (vs ! i) # growth_rates (drop i vs)"
proof -
  have a: "drop (i - 1) vs = vs ! (i - 1) # vs ! i # drop (Suc i) vs"
    using assms by (rule drop_pred_split)
  have b: "drop i vs = vs ! i # drop (Suc i) vs"
    using assms(2) by (simp add: Cons_nth_drop_Suc)
  show ?thesis
    by (simp only: a b growth_rates_Cons2)
qed

lemma count_increasing_eq:
  "1 \<le> i \<Longrightarrow> count_increasing f xs i cnt = cnt + increases (drop (i - 1) (map f xs))"
proof (induction f xs i cnt rule: count_increasing.induct)
  case (1 f xs i cnt)
  show ?case
  proof (cases "i < length xs")
    case True
    have "count_increasing f xs i cnt
          = count_increasing f xs (Suc i)
              (if js_gt (f (xs ! i)) (f (xs ! (i - 1))) then Suc cnt else cnt)"
      using True by (subst count_increasing.simps) simp
    also have "\<dots> = (if js_gt (f (xs ! i)) (f (xs ! (i - 1))) then Suc cnt else cnt)
                    + increases (drop (Suc i - 1) (map f xs))"
      using True by (intro "1.IH") simp_all
    also have "\<dots> = cnt + increases (drop (i - 1) (map f xs))"
      using increases_drop_step [of i "map f xs"] True "1.prems" by simp
    finally show ?thesis .
  next
    case False
    then have "length (drop (i - 1) (map f xs)) \<le> 1" by simp
    then have "increases (drop (i - 1) (map f xs)) = 0" by (rule increases_short)
    moreover have "count_increasing f xs i cnt = cnt"
      using False by (subst count_increasing.simps) simp
    ultimately show ?thesis by simp
  qed
qed

lemma growth_rates_loop_eq:
  "1 \<le> i \<Longrightarrow>
   growth_rates_loop ys i rates = rates @ growth_rates (drop (i - 1) (map revenue ys))"
proof (induction ys i rates rule: growth_rates_loop.induct)
  case (1 ys i rates)
  show ?case
  proof (cases "i < length ys")
    case True
    have "growth_rates_loop ys i rates
          = growth_rates_loop ys (Suc i)
              (rates @ [growthRate (revenue (ys ! (i - 1))) (revenue (ys ! i))])"
      using True by (subst growth_rates_loop.simps) simp
    also have "\<dots> = (rates @ [growthRate (revenue (ys ! (i - 1))) (revenue (ys ! i))])
                    @ growth_rates (drop (Suc i - 1) (map revenue ys))"
      using True by (intro "1.IH") simp_all
    also have "\<dots> = rates @ growth_rates (drop (i - 1) (map revenue ys))"
      using growth_rates_drop_step [of i "map revenue ys"] True "1.prems" by simp
    finally show ?thesis .
  next
    case False
    then have "length (drop (i - 1) (map revenue ys)) \<le> 1" by simp
    then have "growth_rates (drop (i - 1) (map revenue ys)) = []" by (rule growth_rates_short)
    moreover have "growth_rates_loop ys i rates = rates"
      using False by (subst growth_rates_loop.simps) simp
    ultimately show ?thesis by simp
  qed
qed

lemma count_increasing_start: "count_increasing f xs (Suc 0) 0 = increases (map f xs)"
  using count_increasing_eq [of 1 f xs 0] by simp

lemma growth_rates_loop_start:
  "growth_rates_loop ys (Suc 0) [] = growth_rates (map revenue ys)"
  using growth_rates_loop_eq [of 1 ys "[]"] by simp

lemma momentum_short: "length (years c) < 3 \<Longrightarrow> calculateMomentumScore c = Num 50"
  by (simp add: calculateMomentumScore_def)

lemma momentum_long:
  assumes "3 \<le> length (years c)"
  shows "calculateMomentumScore c = Num (min (max (composite c * 100) 0) 100)"
proof -
  let ?ys = "years c"
  let ?a = "real (increases (map revenue ?ys))"
  let ?b = "real (increases (map netProfit ?ys))"
  let ?k = "real (increases (growth_rates (map revenue ?ys)))"
  let ?d = "real (length ?ys) - 1"
  let ?e = "real (length (growth_rates (map revenue ?ys))) - 1"
  from assms have d: "0 < ?d" and e: "0 < ?e" by simp_all
  from assms have two: "2 \<le> length (growth_rates (map revenue ?ys))" by simp
  from assms have short: "\<not> length ?ys < 3" by simp
  have a: "?a \<le> ?d"
    using increases_le [of "map revenue ?ys"] assms by simp
  have b: "?b \<le> ?d"
    using increases_le [of "map netProfit ?ys"] assms by simp
  have k: "?k \<le> ?e"
    using increases_le [of "growth_rates (map revenue ?ys)"] two by simp
  have ra: "js_div (Num ?a) (Num ?d) = Num (?a / ?d)"
    using a d by (intro ratio_Num) simp_all
  have rb: "js_div (Num ?b) (Num ?d) = Num (?b / ?d)"
    using b d by (intro ratio_Num) simp_all
  have rk: "js_div (Num ?k) (Num ?e) = Num (?k / ?e)"
    using k e by (intro ratio_Num) simp_all
  have q: "0 \<le> ?a / ?d" "?a / ?d \<le> 1" "0 \<le> ?b / ?d" "?b / ?d \<le> 1"
    "0 \<le> ?k / ?e" "?k / ?e \<le> 1"
    using a b k d e by simp_all
  have score: "calculateMomentumScore c
               = clamp (Num ((?a / ?d * 40 + ?b / ?d * 40 + ?k / ?e * 20) * 100))
                   (Num 0) (Num 100)"
    by (simp only: calculateMomentumScore_def Let_def short if_False One_nat_def
        count_increasing_start growth_rates_loop_start map_ident two if_True ra rb rk
        weighted_score_Num [OF q])
  have comp: "composite c = ?a / ?d * 40 + ?b / ?d * 40 + ?k / ?e * 20"
    using two by (simp add: composite_def revenueMomentum_def profitMomentum_def
        acceleration_def)
  show ?thesis
    unfolding score comp by simp
qed

lemma composite_expand:
  assumes "3 \<le> length (years c)"
  shows "composite c =
           40 * real (increases (map revenue (years c))) / (real (length (years c)) - 1)
         + 40 * real (increases (map netProfit (years c))) / (real (length (years c)) - 1)
         + 20 * real (increases (growth_rates (map revenue (years c))))
             / (real (length (years c)) - 2)"
proof -
  from assms have "\<not> length (years c) - 1 < 2" by simp
  moreover from assms have "real (length (years c) - 1) - 1 = real (length (years c)) - 2"
    by simp
  ultimately show ?thesis
    by (simp add: composite_def revenueMomentum_def profitMomentum_def acceleration_def
        mult.commute)
qed

lemma composite_nonneg:
  assumes "3 \<le> length (years c)"
  shows "0 \<le> composite c"
proof -
  from assms have "0 < real (length (years c)) - 1" "0 < real (length (years c)) - 2"
    by simp_all
  then show ?thesis
    unfolding composite_expand [OF assms] by (intro add_nonneg_nonneg divide_nonneg_pos) simp_all
qed

text \<open>
  A composite that is not zero has one of its three counts positive, and each count
  weighs at least \<open>40 / (n - 1)\<close>, respectively \<open>20 / (n - 2)\<close>.
\<close>

lemma composite_zero_or_step:
  assumes "3 \<le> length (years c)"
  shows "composite c = 0
         \<or> 40 / (real (length (years c)) - 1) \<le> composite c
         \<or> 20 / (real (length (years c)) - 2) \<le> composite c"
proof -
  let ?n = "real (length (years c))"
  let ?a = "increases (map revenue (years c))"
  let ?b = "increases (map netProfit (years c))"
  let ?k = "increases (growth_rates (map revenue (years c)))"
  from assms have pos: "0 < ?n - 1" "0 < ?n - 2" by simp_all
  have A: "0 \<le> 40 * real ?a / (?n - 1)" using pos by simp
  have B: "0 \<le> 40 * real ?b / (?n - 1)" using pos by simp
  have K: "0 \<le> 20 * real ?k / (?n - 2)" using pos by simp
  note e = composite_expand [OF assms]
  consider "?a = 0 \<and> ?b = 0 \<and> ?k = 0" | "1 \<le> ?a" | "1 \<le> ?b" | "1 \<le> ?k"
    by linarith
  then show ?thesis
  proof cases
    case 1
    then show ?thesis by (simp add: e)
  next
    case 2
    then have "40 * 1 / (?n - 1) \<le> 40 * real ?a / (?n - 1)"
      using pos by (intro divide_right_mono mult_left_mono) simp_all
    with B K e show ?thesis by simp
  next
    case 3
    then have "40 * 1 / (?n - 1) \<le> 40 * real ?b / (?n - 1)"
      using pos by (intro divide_right_mono mult_left_mono) simp_all
    with A K e show ?thesis by simp
  next
    case 4
    then have "20 * 1 / (?n - 2) \<le> 20 * real ?k / (?n - 2)"
      using pos by (intro divide_right_mono mult_left_mono) simp_all
    with A B e show ?thesis by simp
  qed
qed

lemma composite_zero_or_one:
  assumes "3 \<le> length (years c)" and "length (years c) \<le> 22"
  shows "composite c = 0 \<or> 1 \<le> composite c"
proof -
  let ?n = "real (length (years c))"
  from assms have pos: "0 < ?n - 1" "0 < ?n - 2" and le: "?n \<le> 22" by simp_all
  have "1 \<le> 40 / (?n - 1)" using pos le by (simp add: pos_le_divide_eq)
  moreover have "1 \<le> 20 / (?n - 2)" using pos le by (simp add: pos_le_divide_eq)
  ultimately show ?thesis
    using composite_zero_or_step [OF assms(1)] by linarith
qed

lemma momentum_values:
  assumes "3 \<le> length (years c)"
  shows "composite c = 0 \<Longrightarrow> calculateMomentumScore c = Num 0"
    and "1 \<le> composite c \<Longrightarrow> calculateMomentumScore c = Num 100"
    and "composite c < 1 \<Longrightarrow> calculateMomentumScore c = Num (composite c * 100)"
  using composite_nonneg [OF assms] by (simp_all add: momentum_long [OF assms])


lemma js_lt_irrefl [simp]: "\<not> js_lt v v"
  by (cases v) simp_all

lemma increases_replicate [simp]: "increases (replicate n v) = 0"
  by (simp add: increases_def js_gt_def)

lemma increases_Cons_replicate:
  "increases (a # replicate (Suc n) v) = (if js_gt v a then 1 else 0)"
  using increases_Cons2 [of a v "replicate n v"] increases_replicate [of "Suc n" v]
  by (simp del: increases_replicate)

lemma growth_rates_replicate: "growth_rates (replicate n v) = replicate (n - 1) (growthRate v v)"
  by (simp add: growth_rates_def)

lemma growth_rates_Cons_replicate:
  "growth_rates (a # replicate (Suc n) v) = growthRate a v # replicate n (growthRate v v)"
  using growth_rates_Cons2 [of a v "replicate n v"] growth_rates_replicate [of "Suc n" v]
  by simp

lemma slump_length: "length (years slump_company) = 42"
  by (simp add: slump_company_def)

lemma slump_composite: "composite slump_company = 1 / 2"
proof -
  have n: "(41::nat) = Suc 40" by simp
  have rev: "map revenue (years slump_company) = Num 100 # replicate (Suc 40) (Num 50)"
    by (simp add: slump_company_def plain_year_def)
  have prof: "map netProfit (years slump_company) = replicate 42 (Num 10)"
    by (simp add: slump_company_def plain_year_def replicate_Suc [symmetric]
        del: replicate_Suc replicate.simps)
  have rates: "growth_rates (map revenue (years slump_company))
               = Num (- 50) # replicate (Suc 39) (Num 0)"
    unfolding rev growth_rates_Cons_replicate by simp
  have "increases (map revenue (years slump_company)) = 0"
    unfolding rev increases_Cons_replicate by simp
  moreover have "increases (map netProfit (years slump_company)) = 0"
    unfolding prof by simp
  moreover have "increases (growth_rates (map revenue (years slump_company))) = 1"
    unfolding rates increases_Cons_replicate by simp
  ultimately show ?thesis
    using slump_length by (simp add: composite_expand)
qed

lemma growing_length: "length (years growing_company) = 3"
  by (simp add: growing_company_def)

lemma growing_composite: "composite growing_company = 100"
proof -
  have "increases (map revenue (years growing_company)) = 2"
    by (simp add: growing_company_def increases_def)
  moreover have "increases (map netProfit (years growing_company)) = 2"
    by (simp add: growing_company_def increases_def)
  moreover have "increases (growth_rates (map revenue (years growing_company))) = 1"
    by (simp add: growing_company_def increases_def growth_rates_def)
  ultimately show ?thesis
    using growing_length by (simp add: composite_expand)
qed





text \<open>
  Claim C5. With between 3 and 22 fiscal periods the momentum score is exactly 0 or
  exactly 100: a positive composite is at least
  \<open>min (40 / (n - 1)) (20 / (n - 2))\<close>, and a hundred times that bound already
  reaches the ceiling of 100.
\<close>

theorem momentum_score_saturates:
  "3 \<le> length (years c) \<Longrightarrow> length (years c) \<le> 22 \<Longrightarrow>
   (calculateMomentumScore c = Num 0 \<or> calculateMomentumScore c = Num 100)
   \<and> (0 < composite c \<longrightarrow>
        min (40 / (real (length (years c)) - 1)) (20 / (real (length (years c)) - 2))
          \<le> composite c)
   \<and> 100 \<le> min (40 / (real (length (years c)) - 1)) (20 / (real (length (years c)) - 2)) * 100"
proof (intro conjI impI)
  assume n: "3 \<le> length (years c)" "length (years c) \<le> 22"
  let ?n = "real (length (years c))"
  from composite_zero_or_one [OF n]
  show "calculateMomentumScore c = Num 0 \<or> calculateMomentumScore c = Num 100"
    using momentum_values(1,2) [OF n(1)] by blast
  from n have pos: "0 < ?n - 1" "0 < ?n - 2" and le: "?n \<le> 22" by simp_all
  have "1 \<le> 40 / (?n - 1)" using pos le by (simp add: pos_le_divide_eq)
  moreover have "1 \<le> 20 / (?n - 2)" using pos le by (simp add: pos_le_divide_eq)
  ultimately show "100 \<le> min (40 / (?n - 1)) (20 / (?n - 2)) * 100"
    by (simp add: min_def)
  show "min (40 / (?n - 1)) (20 / (?n - 2)) \<le> composite c" if "0 < composite c"
    using composite_zero_or_step [OF n(1)] that by linarith
qed

theorem momentum_score_saturates_witness:
  "3 \<le> length (years growing_company) \<and> length (years growing_company) \<le> 22
   \<and> 0 < composite growing_company
   \<and> calculateMomentumScore growing_company = Num 100
   \<and> min (40 / (real (length (years growing_company)) - 1))
          (20 / (real (length (years growing_company)) - 2)) \<le> composite growing_company"
proof -
  have g: "3 \<le> length (years growing_company)" "length (years growing_company) \<le> 22"
    by (simp_all add: growing_length)
  have s: "calculateMomentumScore growing_company = Num 100"
    by (simp add: momentum_long [OF g(1)] growing_composite)
  from momentum_score_saturates [OF g] s g show ?thesis
    by (simp add: growing_composite)
qed

text \<open>
  Claim C4, as amended. With fewer than three fiscal periods the momentum score is the
  neutral 50; with between 3 and 41 periods it is never 50.
\<close>

theorem momentum_neutral_short_history:
  "(length (years c) < 3 \<longrightarrow> calculateMomentumScore c = Num 50)
   \<and> (3 \<le> length (years c) \<and> length (years c) \<le> 41 \<longrightarrow>
        calculateMomentumScore c \<noteq> Num 50)"
proof (intro conjI impI)
  show "calculateMomentumScore c = Num 50" if "length (years c) < 3"
    using that by (rule momentum_short)
  show "calculateMomentumScore c \<noteq> Num 50" if h: "3 \<le> length (years c) \<and> length (years c) \<le> 41"
  proof -
    let ?n = "real (length (years c))"
    from h have n: "3 \<le> length (years c)" by simp
    from h have pos: "0 < ?n - 1" "0 < ?n - 2" and le: "?n \<le> 41" by simp_all
    have "1 \<le> 40 / (?n - 1)" using pos le by (simp add: pos_le_divide_eq)
    moreover have "1 / 2 < 20 / (?n - 2)" using pos le by (simp add: pos_less_divide_eq)
    ultimately have "composite c = 0 \<or> 1 / 2 < composite c"
      using composite_zero_or_step [OF n] by linarith
    then show ?thesis
      by (auto simp add: momentum_long [OF n])
  qed
qed

theorem momentum_neutral_short_history_witness:
  "length (years scenario_company) < 3 \<and> calculateMomentumScore scenario_company = Num 50
   \<and> 3 \<le> length (years growing_company) \<and> length (years growing_company) \<le> 41
   \<and> calculateMomentumScore growing_company \<noteq> Num 50"
proof -
  have a: "length (years scenario_company) < 3" by (simp add: scenario_company_def)
  have b: "3 \<le> length (years growing_company) \<and> length (years growing_company) \<le> 41"
    by (simp add: growing_length)
  from momentum_neutral_short_history [of scenario_company]
       momentum_neutral_short_history [of growing_company] a b
  show ?thesis by blast
qed

text \<open>
  Claim C4 as stated fails in its converse: a company with 42 fiscal periods whose only
  growth-rate increase is one among 40 pairs has composite \<open>1 / 2\<close> and the score 50.
\<close>

theorem momentum_50_long_history_counterexample:
  "length (years slump_company) = 42 \<and> \<not> length (years slump_company) < 3
   \<and> calculateMomentumScore slump_company = Num 50"
proof -
  have n: "3 \<le> length (years slump_company)" by (simp add: slump_length)
  show ?thesis
    by (simp add: slump_length momentum_long [OF n] slump_composite)
qed

subsection \<open>Classification\<close>

lemma calculateRisk_nonempty: "years c \<noteq> [] \<Longrightarrow> \<exists>r. calculateRisk c = Inr r"
  by (simp add: calculateRisk_sum [OF calculateMetrics_nonempty])

lemma calculateHealthScore_nonempty: "years c \<noteq> [] \<Longrightarrow> \<exists>h. calculateHealthScore c = Inr h"
  by (simp add: calculateHealthScore_sum [OF calculateMetrics_nonempty])

lemma calculateUndervaluationScore_nonempty:
  "years c \<noteq> [] \<Longrightarrow> \<forall>p \<in> set ps. years p \<noteq> [] \<Longrightarrow>
   \<exists>u. calculateUndervaluationScore ps c = Inr u"
  by (simp add: calculateUndervaluationScore_def calculateMetrics_nonempty allMetrics_of_char
      Let_def)

lemma classifyCompany_rules:
  assumes "calculateHealthScore c = Inr h" and "calculateUndervaluationScore ps c = Inr u"
    and "calculateRisk c = Inr r" and "calculateMetrics c = Inr m"
  shows "classifyCompany ps c
         = Inr (first_match (classification_rules u h (calculateMomentumScore c) r m)
                  neutral_default)"
  using assms
  by (simp add: classifyCompany_def classification_rules_def first_match_def neutral_default_def)

lemma first_match_cases:
  "first_match (classification_rules u h mo r m) neutral_default
   \<in> {\<lparr> category = Undervalued, confidence = 0.9 \<rparr>, \<lparr> category = Overvalued, confidence = 0.85 \<rparr>,
       \<lparr> category = Growth, confidence = 0.8 \<rparr>, \<lparr> category = Stable, confidence = 0.85 \<rparr>,
       \<lparr> category = Neutral, confidence = 0.5 \<rparr>}"
  by (simp add: classification_rules_def first_match_def neutral_default_def)

text \<open>
  Claim C7. The classification is the outcome of the first rule, in the order of the
  list, whose condition holds. A company that satisfies the conditions of rule 1
  (undervaluation above 70, health above 60) and of rule 3 (momentum above 75, health
  above 50) is classified undervalued with confidence 0.9; and every company with a
  fiscal record, scored against a population of such companies, receives one of the
  five outcomes, the neutral default with confidence 0.5 among them.
\<close>

theorem classification_first_match_wins:
  assumes "years c \<noteq> []" and "\<forall>p \<in> set ps. years p \<noteq> []"
  shows "\<exists>h u r m.
           calculateHealthScore c = Inr h \<and> calculateUndervaluationScore ps c = Inr u
           \<and> calculateRisk c = Inr r \<and> calculateMetrics c = Inr m
           \<and> classifyCompany ps c
               = Inr (first_match (classification_rules u h (calculateMomentumScore c) r m)
                        neutral_default)
           \<and> (js_gt u (Num 70) \<and> js_gt h (Num 60)
                \<and> js_gt (calculateMomentumScore c) (Num 75) \<and> js_gt h (Num 50)
               \<longrightarrow> classifyCompany ps c = Inr \<lparr> category = Undervalued, confidence = 0.9 \<rparr>)
           \<and> (\<exists>k. classifyCompany ps c = Inr k
                \<and> k \<in> {\<lparr> category = Undervalued, confidence = 0.9 \<rparr>,
                        \<lparr> category = Overvalued, confidence = 0.85 \<rparr>,
                        \<lparr> category = Growth, confidence = 0.8 \<rparr>,
                        \<lparr> category = Stable, confidence = 0.85 \<rparr>,
                        \<lparr> category = Neutral, confidence = 0.5 \<rparr>})"
proof -
  from assms obtain h u r m where s:
    "calculateHealthScore c = Inr h" "calculateUndervaluationScore ps c = Inr u"
    "calculateRisk c = Inr r" "calculateMetrics c = Inr m"
    using calculateHealthScore_nonempty calculateUndervaluationScore_nonempty
      calculateRisk_nonempty calculateMetrics_nonempty by metis
  note cl = classifyCompany_rules [OF s]
  have first: "classifyCompany ps c = Inr \<lparr> category = Undervalued, confidence = 0.9 \<rparr>"
    if "js_gt u (Num 70) \<and> js_gt h (Num 60)
        \<and> js_gt (calculateMomentumScore c) (Num 75) \<and> js_gt h (Num 50)"
    using that by (simp add: cl classification_rules_def first_match_def)
  have some: "\<exists>k. classifyCompany ps c = Inr k
                \<and> k \<in> {\<lparr> category = Undervalued, confidence = 0.9 \<rparr>,
                        \<lparr> category = Overvalued, confidence = 0.85 \<rparr>,
                        \<lparr> category = Growth, confidence = 0.8 \<rparr>,
                        \<lparr> category = Stable, confidence = 0.85 \<rparr>,
                        \<lparr> category = Neutral, confidence = 0.5 \<rparr>}"
    unfolding cl using first_match_cases by blast
  from s cl first some show ?thesis by blast
qed


lemma growing_company_metrics:
  "calculateMetrics growing_company =
     Inr \<lparr> profitMargin = Num 30, roe = Num 39, debtToEquity = Num 0.1, priceToEquity = Num 1,
           priceToSales = Num (100 / 130), m_revenue = Num 130, m_netProfit = Num 39,
           m_totalDebt = Num 10, m_totalEquity = Num 100, m_marketCap = Num 100 \<rparr>"
  by (simp add: growing_company_def calculateMetrics_def)

lemma growing_health: "calculateHealthScore growing_company = Inr (Num 95)"
proof -
  have "growth_points growing_company = 25"
    by (simp add: growth_points_def growing_company_def growth_bucket_def)
  then show ?thesis
    by (simp add: calculateHealthScore_sum [OF growing_company_metrics] margin_points_def
        roe_points_def debt_points_def)
qed

lemma growing_momentum: "calculateMomentumScore growing_company = Num 100"
proof -
  have "3 \<le> length (years growing_company)" by (simp add: growing_length)
  then show ?thesis by (simp add: momentum_long growing_composite)
qed

lemma allMetrics_of_growing_leveraged:
  "allMetrics_of [growing_company, leveraged_company] =
     Inr [\<lparr> profitMargin = Num 30, roe = Num 39, debtToEquity = Num 0.1, priceToEquity = Num 1,
             priceToSales = Num (100 / 130), m_revenue = Num 130, m_netProfit = Num 39,
             m_totalDebt = Num 10, m_totalEquity = Num 100, m_marketCap = Num 100 \<rparr>,
          \<lparr> profitMargin = Num 10, roe = Num 20, debtToEquity = Num 4, priceToEquity = Num 3,
             priceToSales = Num 1.5, m_revenue = Num 1000, m_netProfit = Num 100,
             m_totalDebt = Num 2000, m_totalEquity = Num 500, m_marketCap = Num 1500 \<rparr>]"
  by (simp add: growing_company_metrics leveraged_company_metrics)

lemma growing_undervaluation:
  "calculateUndervaluationScore [growing_company, leveraged_company] growing_company
   = Inr (Num 100)"
  by (simp add: calculateUndervaluationScore_def growing_company_metrics
      allMetrics_of_growing_leveraged Math_min_def Math_max_def normalize_def Let_def
      del: allMetrics_of.simps)

theorem classification_first_match_wins_witness:
  "years growing_company \<noteq> [] \<and> years leveraged_company \<noteq> []
   \<and> js_gt (Num 100) (Num 70) \<and> js_gt (Num 95) (Num 60)
   \<and> js_gt (calculateMomentumScore growing_company) (Num 75) \<and> js_gt (Num 95) (Num 50)
   \<and> classifyCompany [growing_company, leveraged_company] growing_company
       = Inr \<lparr> category = Undervalued, confidence = 0.9 \<rparr>"
proof -
  have a: "years growing_company \<noteq> []"
    by (simp add: growing_company_def)
  have b: "\<forall>p \<in> set [growing_company, leveraged_company]. years p \<noteq> []"
    by (simp add: growing_company_def leveraged_company_def)
  from classification_first_match_wins [OF a b]
  have "classifyCompany [growing_company, leveraged_company] growing_company
        = Inr \<lparr> category = Undervalued, confidence = 0.9 \<rparr>"
    by (auto simp add: growing_health growing_undervaluation growing_momentum)
  with a b show ?thesis
    by (simp add: growing_momentum)
qed

subsection \<open>Trend forecast\<close>

text \<open>
  Bounded operands give the real result. The bounds are carried along, so that a chain
  of operations stays below the overflow threshold.
\<close>

lemma js_add_bounded:
  assumes "\<bar>a\<bar> \<le> A" and "\<bar>b\<bar> \<le> B" and "A + B < safe_range"
  shows "js_add (Num a) (Num b) = Num (a + b)" and "\<bar>a + b\<bar> \<le> A + B"
proof -
  from assms(1,2) show le: "\<bar>a + b\<bar> \<le> A + B" by linarith
  with assms(3) have "\<bar>a + b\<bar> < safe_range" by linarith
  then show "js_add (Num a) (Num b) = Num (a + b)" by (simp add: js_number_Num)
qed

lemma js_sub_bounded:
  assumes "\<bar>a\<bar> \<le> A" and "\<bar>b\<bar> \<le> B" and "A + B < safe_range"
  shows "js_sub (Num a) (Num b) = Num (a - b)" and "\<bar>a - b\<bar> \<le> A + B"
proof -
  from assms(1,2) show le: "\<bar>a - b\<bar> \<le> A + B" by linarith
  with assms(3) have "\<bar>a - b\<bar> < safe_range" by linarith
  then show "js_sub (Num a) (Num b) = Num (a - b)" by (simp add: js_number_Num)
qed

lemma js_mul_bounded:
  assumes "\<bar>a\<bar> \<le> A" and "\<bar>b\<bar> \<le> B" and "A * B < safe_range"
  shows "js_mul (Num a) (Num b) = Num (a * b)" and "\<bar>a * b\<bar> \<le> A * B"
proof -
  have "0 \<le> \<bar>a\<bar>" "0 \<le> \<bar>b\<bar>" by simp_all
  with assms(1,2) have "\<bar>a\<bar> * \<bar>b\<bar> \<le> A * B"
    by (intro mult_mono) linarith+
  then show le: "\<bar>a * b\<bar> \<le> A * B" by (simp add: abs_mult)
  with assms(3) have "\<bar>a * b\<bar> < safe_range" by linarith
  then show "js_mul (Num a) (Num b) = Num (a * b)" by (simp add: js_number_Num)
qed

lemma js_div_bounded:
  assumes "\<bar>a\<bar> \<le> A" and "1 \<le> \<bar>b\<bar>" and "A < safe_range"
  shows "js_div (Num a) (Num b) = Num (a / b)" and "\<bar>a / b\<bar> \<le> A"
proof -
  from assms(2) have b: "b \<noteq> 0" "0 < \<bar>b\<bar>" by auto
  have "\<bar>a\<bar> / \<bar>b\<bar> \<le> \<bar>a\<bar> / 1"
    using assms(2) by (intro divide_left_mono) simp_all
  with assms(1) show le: "\<bar>a / b\<bar> \<le> A" by simp
  with assms(3) have "\<bar>a / b\<bar> < safe_range" by linarith
  then show "js_div (Num a) (Num b) = Num (a / b)"
    using b by (simp add: js_number_Num)
qed

text \<open>The four \<^verbatim>\<open>reduce\<close> calls, when the sum of the magnitudes stays in range.\<close>

lemma foldl_js_add_Num:
  "\<bar>s\<bar> + (\<Sum>z\<leftarrow>zs. \<bar>z\<bar>) < safe_range \<Longrightarrow>
   foldl (\<lambda>a b. js_add a b) (Num s) (map Num zs) = Num (s + sum_list zs)"
proof (induction zs arbitrary: s)
  case Nil
  show ?case by simp
next
  case (Cons z zs)
  have nn: "0 \<le> (\<Sum>z\<leftarrow>zs. \<bar>z\<bar>)" by (rule sum_list_nonneg) auto
  from Cons.prems have p: "\<bar>s\<bar> + (\<bar>z\<bar> + (\<Sum>z\<leftarrow>zs. \<bar>z\<bar>)) < safe_range" by simp
  from p nn have "\<bar>s + z\<bar> < safe_range" by linarith
  then have step: "js_number (s + z) = Num (s + z)" by (rule js_number_Num)
  from p have "\<bar>s + z\<bar> + (\<Sum>z\<leftarrow>zs. \<bar>z\<bar>) < safe_range" by linarith
  then have "foldl (\<lambda>a b. js_add a b) (Num (s + z)) (map Num zs) = Num (s + z + sum_list zs)"
    by (rule Cons.IH)
  then show ?case by (simp add: step add.assoc)
qed

lemma foldl_squares_Num:
  "\<bar>s\<bar> + (\<Sum>i\<leftarrow>js. real i * real i) < safe_range \<Longrightarrow>
   foldl (\<lambda>sum x. js_add sum (js_mul x x)) (Num s) (map (\<lambda>i. Num (real i)) js)
   = Num (s + sum_list (map (\<lambda>i. real i * real i) js))"
proof (induction js arbitrary: s)
  case Nil
  show ?case by simp
next
  case (Cons j js)
  define x where "x = real j * real j"
  have nn: "0 \<le> (\<Sum>i\<leftarrow>js. real i * real i)" by (rule sum_list_nonneg) auto
  have sq: "0 \<le> x" by (simp add: x_def)
  from Cons.prems have p: "\<bar>s\<bar> + (x + (\<Sum>i\<leftarrow>js. real i * real i)) < safe_range"
    by (simp add: x_def)
  from p nn sq have "\<bar>x\<bar> < safe_range" by linarith
  then have m: "js_number x = Num x" by (rule js_number_Num)
  from p nn sq have "\<bar>s + x\<bar> < safe_range" by linarith
  then have step: "js_number (s + x) = Num (s + x)" by (rule js_number_Num)
  from p sq have "\<bar>s + x\<bar> + (\<Sum>i\<leftarrow>js. real i * real i) < safe_range" by linarith
  then have "foldl (\<lambda>sum x. js_add sum (js_mul x x)) (Num (s + x))
               (map (\<lambda>i. Num (real i)) js)
             = Num (s + x + sum_list (map (\<lambda>i. real i * real i) js))"
    by (rule Cons.IH)
  then show ?case
    using m step by (simp add: x_def add.assoc)
qed

lemma foldl_products_Num:
  "\<forall>i \<in> set js. i < length ys \<Longrightarrow>
   \<bar>s\<bar> + (\<Sum>i\<leftarrow>js. \<bar>real i * ys ! i\<bar>) < safe_range \<Longrightarrow>
   foldl (\<lambda>sum (x, i). js_add sum (js_mul x (map Num ys ! i))) (Num s)
     (zip (map (\<lambda>i. Num (real i)) js) js)
   = Num (s + sum_list (map (\<lambda>i. real i * ys ! i) js))"
proof (induction js arbitrary: s)
  case Nil
  show ?case by simp
next
  case (Cons j js)
  define x where "x = real j * ys ! j"
  have nn: "0 \<le> (\<Sum>i\<leftarrow>js. \<bar>real i * ys ! i\<bar>)" by (rule sum_list_nonneg) auto
  from Cons.prems(1) have j: "j < length ys" and rest: "\<forall>i \<in> set js. i < length ys"
    by simp_all
  from Cons.prems(2)
  have p: "\<bar>s\<bar> + (\<bar>x\<bar> + (\<Sum>i\<leftarrow>js. \<bar>real i * ys ! i\<bar>)) < safe_range"
    by (simp add: x_def)
  from p nn have "\<bar>x\<bar> < safe_range" by linarith
  then have m: "js_number x = Num x" by (rule js_number_Num)
  from p nn have "\<bar>s + x\<bar> < safe_range" by linarith
  then have step: "js_number (s + x) = Num (s + x)" by (rule js_number_Num)
  from p have "\<bar>s + x\<bar> + (\<Sum>i\<leftarrow>js. \<bar>real i * ys ! i\<bar>) < safe_range" by linarith
  with rest
  have "foldl (\<lambda>sum (x, i). js_add sum (js_mul x (map Num ys ! i))) (Num (s + x))
          (zip (map (\<lambda>i. Num (real i)) js) js)
        = Num (s + x + sum_list (map (\<lambda>i. real i * ys ! i) js))"
    by (intro Cons.IH)
  then show ?case
    using j m step by (simp add: x_def add.assoc)
qed

lemma sum_list_upt: "sum_list (map f [0..<n]) = (\<Sum>i<n. f i)"
  by (simp add: interv_sum_list_conv_sum_set_nat atLeast0LessThan)

lemma sum_indices: "(\<Sum>i<n. real i) = real n * (real n - 1) / 2"
  by (induction n) (simp_all add: field_simps)

lemma sum_index_squares: "(\<Sum>i<n. real i * real i) = (real n - 1) * real n * (2 * real n - 1) / 6"
  by (induction n) (simp_all add: field_simps)

lemma regression_denominator:
  "real n * (\<Sum>i<n. real i * real i) - (\<Sum>i<n. real i) * (\<Sum>i<n. real i)
   = real n * real n * (real n - 1) * (real n + 1) / 12"
  unfolding sum_indices sum_index_squares by (simp add: field_simps)

lemma regression_denominator_pos:
  assumes "2 \<le> n"
  shows "0 < real n * (\<Sum>i<n. real i * real i) - (\<Sum>i<n. real i) * (\<Sum>i<n. real i)"
proof -
  from assms have "0 < real n" "0 < real n - 1" "0 < real n + 1" by simp_all
  then have "0 < real n * real n * (real n - 1) * (real n + 1) / 12" by simp
  then show ?thesis by (simp only: regression_denominator)
qed


lemma sum_list_values: "sum_list (map f ys) = (\<Sum>i<length ys. f (ys ! i))"
proof -
  have "sum_list (map f ys) = (\<Sum>i<length (map f ys). map f ys ! i)"
    by (simp only: sum_list_sum_nth atLeast0LessThan)
  also have "\<dots> = (\<Sum>i<length ys. f (ys ! i))"
    by (intro sum.cong) simp_all
  finally show ?thesis .
qed

lemma regression_next_Num:
  assumes n2: "2 \<le> length ys" and nL: "length ys \<le> max_periods"
    and v: "\<forall>y \<in> set ys. \<bar>y\<bar> \<le> max_value"
  shows "regression_next (map Num ys) = Num (ols_forecast ys)"
proof -
  let ?n = "length ys"
  let ?N = "real (length ys)"
  define L where "L = (2::real) ^ 20"
  define V where "V = (2::real) ^ 900"
  define sx where "sx = (\<Sum>i<?n. real i)"
  define sy where "sy = (\<Sum>i<?n. ys ! i)"
  define sxy where "sxy = (\<Sum>i<?n. real i * ys ! i)"
  define sxx where "sxx = (\<Sum>i<?n. real i * real i)"
  have L0: "0 \<le> L" and V0: "0 \<le> V" by (simp_all add: L_def V_def)
  have "?N \<le> real max_periods" using nL by simp
  also have "real max_periods = L" by (simp add: max_periods_def L_def)
  finally have NL: "?N \<le> L" .
  have N2: "2 \<le> ?N" using n2 by simp
  have bN: "\<bar>?N\<bar> \<le> L" using NL by simp
  have N1: "1 \<le> \<bar>?N\<bar>" using N2 by simp
  have i_le: "real i \<le> L" if "i < ?n" for i
    using that NL by simp
  have y_le: "\<bar>ys ! i\<bar> \<le> V" if "i < ?n" for i
    using that v by (simp add: V_def max_value_def)
  have scale: "?N * K \<le> L * K" if "0 \<le> K" for K
    using NL that by (rule mult_right_mono)
  have "(\<Sum>i<?n. real i) \<le> ?N * L"
    using sum_bounded_above [of "{..<?n}" real L] i_le by simp
  with scale [OF L0] have ax: "(\<Sum>i<?n. real i) \<le> L * L" by linarith
  have "(\<Sum>i<?n. \<bar>ys ! i\<bar>) \<le> ?N * V"
    using sum_bounded_above [of "{..<?n}" "\<lambda>i. \<bar>ys ! i\<bar>" V] y_le by simp
  with scale [OF V0] have ay: "(\<Sum>i<?n. \<bar>ys ! i\<bar>) \<le> L * V" by linarith
  have term_xy: "\<bar>real i * ys ! i\<bar> \<le> L * V" if "i < ?n" for i
  proof -
    have "\<bar>real i\<bar> * \<bar>ys ! i\<bar> \<le> L * V"
      using i_le [OF that] y_le [OF that] L0 by (intro mult_mono) simp_all
    then show ?thesis by (simp add: abs_mult)
  qed
  have LV0: "0 \<le> L * V" and LL0: "0 \<le> L * L" using L0 V0 by simp_all
  have "(\<Sum>i<?n. \<bar>real i * ys ! i\<bar>) \<le> ?N * (L * V)"
    using sum_bounded_above [of "{..<?n}" "\<lambda>i. \<bar>real i * ys ! i\<bar>" "L * V"] term_xy by simp
  with scale [OF LV0] have axy: "(\<Sum>i<?n. \<bar>real i * ys ! i\<bar>) \<le> L * (L * V)" by linarith
  have term_xx: "real i * real i \<le> L * L" if "i < ?n" for i
    using i_le [OF that] by (intro mult_mono) simp_all
  have "(\<Sum>i<?n. real i * real i) \<le> ?N * (L * L)"
    using sum_bounded_above [of "{..<?n}" "\<lambda>i. real i * real i" "L * L"] term_xx by simp
  with scale [OF LL0] have axx: "(\<Sum>i<?n. real i * real i) \<le> L * (L * L)" by linarith
  have bsx: "\<bar>sx\<bar> \<le> L * L"
    using ax by (simp add: sx_def sum_nonneg)
  have "\<bar>sy\<bar> \<le> (\<Sum>i<?n. \<bar>ys ! i\<bar>)"
    unfolding sy_def by (rule sum_abs)
  with ay have bsy: "\<bar>sy\<bar> \<le> L * V" by linarith
  have "\<bar>sxy\<bar> \<le> (\<Sum>i<?n. \<bar>real i * ys ! i\<bar>)"
    unfolding sxy_def by (rule sum_abs)
  with axy have bsxy: "\<bar>sxy\<bar> \<le> L * (L * V)" by linarith
  have bsxx: "\<bar>sxx\<bar> \<le> L * (L * L)"
    using axx by (simp add: sxx_def sum_nonneg)
  have r1: "L * L < safe_range" "L * V < safe_range" "L * (L * V) < safe_range"
    "L * (L * L) < safe_range"
    by (simp_all add: L_def V_def safe_range_def)
  have sumX: "foldl (\<lambda>a b. js_add a b) (Num 0) (map (\<lambda>i. Num (real i)) [0..<?n]) = Num sx"
    using foldl_js_add_Num [of 0 "map real [0..<?n]"] ax r1(1)
    by (simp add: sum_list_upt comp_def sx_def)
  have ey: "sum_list ys = sy"
    unfolding sy_def by (simp add: sum_list_sum_nth atLeast0LessThan)
  have "(\<Sum>z\<leftarrow>ys. \<bar>z\<bar>) < safe_range"
    using ay r1(2) by (simp add: sum_list_values)
  then have sumY: "foldl (\<lambda>a b. js_add a b) (Num 0) (map Num ys) = Num sy"
    using foldl_js_add_Num [of 0 ys] ey by simp
  have sumXY: "foldl (\<lambda>sum (x, i). js_add sum (js_mul x (map Num ys ! i))) (Num 0)
                 (zip (map (\<lambda>i. Num (real i)) [0..<?n]) [0..<?n]) = Num sxy"
    using foldl_products_Num [of "[0..<?n]" ys 0] axy r1(3)
    by (simp add: sum_list_upt sxy_def)
  have sumX2: "foldl (\<lambda>sum x. js_add sum (js_mul x x)) (Num 0)
                 (map (\<lambda>i. Num (real i)) [0..<?n]) = Num sxx"
    using foldl_squares_Num [of 0 "[0..<?n]"] axx r1(4)
    by (simp add: sum_list_upt sxx_def)
  have c1: "L * (L * (L * V)) < safe_range"
    and c2: "L * L * (L * V) < safe_range"
    and c3: "L * (L * (L * V)) + L * L * (L * V) < safe_range"
    and c4: "L * (L * (L * L)) < safe_range"
    and c5: "L * L * (L * L) < safe_range"
    and c6: "L * (L * (L * L)) + L * L * (L * L) < safe_range"
    and c8: "(L * (L * (L * V)) + L * L * (L * V)) * (L * L) < safe_range"
    and c9: "L * V + (L * (L * (L * V)) + L * L * (L * V)) * (L * L) < safe_range"
    and c11: "(L * (L * (L * V)) + L * L * (L * V)) * L < safe_range"
    and c12: "(L * (L * (L * V)) + L * L * (L * V)) * L
              + (L * V + (L * (L * (L * V)) + L * L * (L * V)) * (L * L)) < safe_range"
    by (simp_all add: L_def V_def safe_range_def)
  note p1 = js_mul_bounded [OF bN bsxy c1]
  note p2 = js_mul_bounded [OF bsx bsy c2]
  note num = js_sub_bounded [OF p1(2) p2(2) c3]
  note p3 = js_mul_bounded [OF bN bsxx c4]
  note p4 = js_mul_bounded [OF bsx bsx c5]
  note den = js_sub_bounded [OF p3(2) p4(2) c6]
  have "4 \<le> ?N * ?N"
    using mult_mono [of 2 ?N 2 ?N] N2 by simp
  moreover have "3 \<le> (?N - 1) * (?N + 1)"
    using mult_mono [of 1 "?N - 1" 3 "?N + 1"] N2 by simp
  ultimately have "4 * 3 \<le> ?N * ?N * ((?N - 1) * (?N + 1))"
    by (intro mult_mono) simp_all
  then have "1 \<le> ?N * ?N * (?N - 1) * (?N + 1) / 12"
    by (simp add: mult.assoc)
  then have D1: "1 \<le> \<bar>?N * sxx - sx * sx\<bar>"
    using regression_denominator [of ?n] by (simp add: sx_def sxx_def)
  note slope = js_div_bounded [OF num(2) D1 c3]
  note t = js_mul_bounded [OF slope(2) bsx c8]
  note u = js_sub_bounded [OF bsy t(2) c9]
  note icpt = js_div_bounded [OF u(2) N1 c9]
  note w = js_mul_bounded [OF slope(2) bN c11]
  note res = js_add_bounded [OF w(2) icpt(2) c12]
  have "regression_next (map Num ys)
        = Num ((?N * sxy - sx * sy) / (?N * sxx - sx * sx) * ?N
               + (sy - (?N * sxy - sx * sy) / (?N * sxx - sx * sx) * sx) / ?N)"
    by (simp only: regression_next_def Let_def length_map length_upt diff_zero
        sumX sumY sumXY sumX2 p1(1) p2(1) num(1) p3(1) p4(1) den(1) slope(1) t(1) u(1)
        icpt(1) w(1) res(1))
  then show ?thesis
    by (simp add: ols_forecast_def ols_intercept_def ols_slope_def sx_def sy_def sxy_def
        sxx_def)
qed

text \<open>The normal equations: the residuals of the fitted line sum to zero, and so do
  the residuals weighted by the abscissae.\<close>

lemma ols_normal_equations:
  assumes "2 \<le> length ys"
  shows "(\<Sum>i<length ys. ys ! i - (ols_slope ys * real i + ols_intercept ys)) = 0"
    and "(\<Sum>i<length ys. real i * (ys ! i - (ols_slope ys * real i + ols_intercept ys))) = 0"
proof -
  let ?n = "length ys"
  let ?sx = "\<Sum>i<?n. real i"
  let ?sy = "\<Sum>i<?n. ys ! i"
  let ?sxy = "\<Sum>i<?n. real i * ys ! i"
  let ?sxx = "\<Sum>i<?n. real i * real i"
  let ?a = "ols_slope ys"
  let ?b = "ols_intercept ys"
  have n0: "real ?n \<noteq> 0" using assms by auto
  have den: "real ?n * ?sxx - ?sx * ?sx \<noteq> 0"
    using regression_denominator_pos [OF assms] by simp
  have b: "real ?n * ?b = ?sy - ?a * ?sx"
    using n0 by (simp add: ols_intercept_def)
  have a: "?a * (real ?n * ?sxx - ?sx * ?sx) = real ?n * ?sxy - ?sx * ?sy"
    using den by (simp add: ols_slope_def)
  have r1: "(\<Sum>i<?n. ys ! i - (?a * real i + ?b)) = ?sy - ?a * ?sx - real ?n * ?b"
    by (simp add: sum_subtractf sum.distrib sum_distrib_left)
  show "(\<Sum>i<?n. ys ! i - (?a * real i + ?b)) = 0"
    unfolding r1 b by simp
  have "(\<Sum>i<?n. real i * (ys ! i - (?a * real i + ?b)))
        = (\<Sum>i<?n. real i * ys ! i - (?a * (real i * real i) + ?b * real i))"
    by (rule sum.cong) (simp_all add: algebra_simps)
  also have "\<dots> = ?sxy - ?a * ?sxx - ?b * ?sx"
    by (simp add: sum_subtractf sum.distrib sum_distrib_left)
  finally have r2: "(\<Sum>i<?n. real i * (ys ! i - (?a * real i + ?b)))
                    = ?sxy - ?a * ?sxx - ?b * ?sx" .
  have "real ?n * (?sxy - ?a * ?sxx - ?b * ?sx)
        = (real ?n * ?sxy - ?sx * ?sy) - ?a * (real ?n * ?sxx - ?sx * ?sx)
          + ?sx * (?sy - ?a * ?sx - real ?n * ?b)"
    by (simp add: algebra_simps)
  also have "\<dots> = 0"
    unfolding a b by simp
  finally have "?sxy - ?a * ?sxx - ?b * ?sx = 0"
    using n0 by simp
  with r2 show "(\<Sum>i<?n. real i * (ys ! i - (?a * real i + ?b))) = 0"
    by simp
qed

text \<open>No line has a smaller sum of squared residuals than the fitted one.\<close>

lemma ols_least_squares:
  assumes "2 \<le> length ys"
  shows "sse ys (ols_slope ys) (ols_intercept ys) \<le> sse ys a b"
proof -
  let ?n = "length ys"
  let ?a = "ols_slope ys"
  let ?b = "ols_intercept ys"
  define r where "r i = ys ! i - (?a * real i + ?b)" for i
  define d where "d = ?a - a"
  define e where "e = ?b - b"
  have N1: "(\<Sum>i<?n. r i) = 0" and N2: "(\<Sum>i<?n. real i * r i) = 0"
    unfolding r_def using ols_normal_equations [OF assms] by simp_all
  have "sse ys a b = (\<Sum>i<?n. (r i)\<^sup>2 + 2 * (d * (real i * r i) + e * r i)
                                  + (d * real i + e)\<^sup>2)"
    unfolding sse_def
    by (rule sum.cong) (simp_all add: r_def d_def e_def power2_eq_square algebra_simps)
  also have "\<dots> = (\<Sum>i<?n. (r i)\<^sup>2)
                  + 2 * (d * (\<Sum>i<?n. real i * r i) + e * (\<Sum>i<?n. r i))
                  + (\<Sum>i<?n. (d * real i + e)\<^sup>2)"
    by (simp add: sum.distrib sum_distrib_left)
  also have "\<dots> = sse ys ?a ?b + (\<Sum>i<?n. (d * real i + e)\<^sup>2)"
    unfolding N1 N2 by (simp add: sse_def r_def)
  finally have "sse ys a b = sse ys ?a ?b + (\<Sum>i<?n. (d * real i + e)\<^sup>2)" .
  moreover have "0 \<le> (\<Sum>i<?n. (d * real i + e)\<^sup>2)"
    by (rule sum_nonneg) simp
  ultimately show ?thesis by simp
qed


lemma predict2026Revenue_null: "predict2026Revenue c = None \<longleftrightarrow> length (years c) < 3"
  by (simp add: predict2026Revenue_def Let_def)

lemma predict2026Profit_null: "predict2026Profit c = None \<longleftrightarrow> length (years c) < 3"
  by (simp add: predict2026Profit_def Let_def)

lemma predict2026Revenue_ols:
  assumes "3 \<le> length (years c)" and "length (years c) \<le> max_periods"
    and "map revenue (years c) = map Num rs" and "\<forall>r \<in> set rs. \<bar>r\<bar> \<le> max_value"
  shows "predict2026Revenue c = Some (Num (max 0 (ols_forecast rs)))"
proof -
  from assms(3) have "length (years c) = length rs"
    by (metis length_map)
  with assms(1,2) have "2 \<le> length rs" "length rs \<le> max_periods" by simp_all
  then have "regression_next (map Num rs) = Num (ols_forecast rs)"
    using assms(4) by (rule regression_next_Num)
  then show ?thesis
    using assms(1,3) by (simp add: predict2026Revenue_def Let_def)
qed

lemma predict2026Profit_ols:
  assumes "3 \<le> length (years c)" and "length (years c) \<le> max_periods"
    and "map netProfit (years c) = map Num ps" and "\<forall>p \<in> set ps. \<bar>p\<bar> \<le> max_value"
  shows "predict2026Profit c = Some (Num (ols_forecast ps))"
proof -
  from assms(3) have "length (years c) = length ps"
    by (metis length_map)
  with assms(1,2) have "2 \<le> length ps" "length ps \<le> max_periods" by simp_all
  then have "regression_next (map Num ps) = Num (ols_forecast ps)"
    using assms(4) by (rule regression_next_Num)
  then show ?thesis
    using assms(1,3) by (simp add: predict2026Profit_def Let_def)
qed

lemma ols_forecast_three:
  "ols_forecast [y0, y1, y2] = (4 * y2 + y1 - 2 * y0) / 3"
  by (simp add: ols_forecast_def ols_intercept_def ols_slope_def numeral_3_eq_3 field_simps)

lemma declining_history:
  "3 \<le> length (years declining_company)" "length (years declining_company) \<le> max_periods"
  "map revenue (years declining_company) = map Num [30, 20, 1]"
  "map netProfit (years declining_company) = map Num [30, 20, 1]"
  "\<forall>r \<in> set [30, 20, 1 :: real]. \<bar>r\<bar> \<le> max_value"
  by (simp_all add: declining_company_def max_periods_def max_value_def)

lemma declining_profit: "predict2026Profit declining_company = Some (Num (- 12))"
proof -
  have "predict2026Profit declining_company = Some (Num (ols_forecast [30, 20, 1]))"
    using declining_history(1,2,4,5) by (rule predict2026Profit_ols)
  then show ?thesis by (simp add: ols_forecast_three)
qed

text \<open>
  With revenue \<open>2 ^ 1023\<close> in each of three periods the sum of the revenues and the sum
  of the products overflow, the slope is the difference of two infinities, and the
  prediction is \<open>NaN\<close>.
\<close>

lemma saturated_regression:
  "regression_next [Num top_value, Num top_value, Num top_value] = NaN"
proof -
  have up: "[0..<3] = [0, 1, 2]" by (simp add: upt_rec)
  show ?thesis
    by (simp add: regression_next_def Let_def up top_value_number top_value_overflow
        js_signed_inf_def js_sub_def)
qed

text \<open>
  Claim C6, as amended. The revenue and the profit prediction are \<^verbatim>\<open>null\<close> exactly when
  the company has fewer than three fiscal periods. With three or more periods, at most
  \<open>2 ^ 20\<close> of them, of values of magnitude at most \<open>2 ^ 900\<close>, the revenue prediction
  is the least-squares line over the period indices \<open>0, \<dots>, n - 1\<close> evaluated at \<open>n\<close>
  and floored at 0, hence never negative; the profit prediction is the same
  extrapolation without the floor, and can be negative. That line is the ordinary
  least-squares line: no other line has a smaller sum of squared residuals.
\<close>

theorem predictions_null_or_least_squares:
  "(predict2026Revenue c = None \<longleftrightarrow> length (years c) < 3)
   \<and> (predict2026Profit c = None \<longleftrightarrow> length (years c) < 3)
   \<and> (3 \<le> length (years c) \<and> length (years c) \<le> max_periods
        \<and> map revenue (years c) = map Num rs \<and> (\<forall>r \<in> set rs. \<bar>r\<bar> \<le> max_value) \<longrightarrow>
        predict2026Revenue c = Some (Num (max 0 (ols_forecast rs)))
        \<and> 0 \<le> max 0 (ols_forecast rs))
   \<and> (3 \<le> length (years c) \<and> length (years c) \<le> max_periods
        \<and> map netProfit (years c) = map Num ps \<and> (\<forall>p \<in> set ps. \<bar>p\<bar> \<le> max_value) \<longrightarrow>
        predict2026Profit c = Some (Num (ols_forecast ps)))
   \<and> (2 \<le> length ys \<longrightarrow> sse ys (ols_slope ys) (ols_intercept ys) \<le> sse ys a b)
   \<and> (\<exists>c' p. predict2026Profit c' = Some (Num p) \<and> p < 0)"
proof (intro conjI impI)
  show "predict2026Revenue c = None \<longleftrightarrow> length (years c) < 3"
    by (rule predict2026Revenue_null)
  show "predict2026Profit c = None \<longleftrightarrow> length (years c) < 3"
    by (rule predict2026Profit_null)
  show "predict2026Revenue c = Some (Num (max 0 (ols_forecast rs)))"
    if "3 \<le> length (years c) \<and> length (years c) \<le> max_periods
        \<and> map revenue (years c) = map Num rs \<and> (\<forall>r \<in> set rs. \<bar>r\<bar> \<le> max_value)"
    using that by (intro predict2026Revenue_ols) simp_all
  show "0 \<le> max 0 (ols_forecast rs)"
    by simp
  show "predict2026Profit c = Some (Num (ols_forecast ps))"
    if "3 \<le> length (years c) \<and> length (years c) \<le> max_periods
        \<and> map netProfit (years c) = map Num ps \<and> (\<forall>p \<in> set ps. \<bar>p\<bar> \<le> max_value)"
    using that by (intro predict2026Profit_ols) simp_all
  show "sse ys (ols_slope ys) (ols_intercept ys) \<le> sse ys a b" if "2 \<le> length ys"
    using that by (rule ols_least_squares)
  show "\<exists>c' p. predict2026Profit c' = Some (Num p) \<and> p < 0"
    using declining_profit by (intro exI [of _ declining_company] exI [of _ "- 12"]) simp
qed

theorem predictions_null_or_least_squares_witness:
  "length (years scenario_company) < 3 \<and> predict2026Revenue scenario_company = None
   \<and> predict2026Profit scenario_company = None
   \<and> 3 \<le> length (years declining_company)
   \<and> length (years declining_company) \<le> max_periods
   \<and> map revenue (years declining_company) = map Num [30, 20, 1]
   \<and> map netProfit (years declining_company) = map Num [30, 20, 1]
   \<and> \<bar>30 :: real\<bar> \<le> max_value \<and> \<bar>20 :: real\<bar> \<le> max_value \<and> \<bar>1 :: real\<bar> \<le> max_value
   \<and> predict2026Revenue declining_company = Some (Num 0)
   \<and> predict2026Profit declining_company = Some (Num (- 12))
   \<and> 2 \<le> length [30, 20, 1 :: real]
   \<and> sse [30, 20, 1] (ols_slope [30, 20, 1]) (ols_intercept [30, 20, 1]) \<le> sse [30, 20, 1] 0 0"
proof -
  have s: "length (years scenario_company) < 3"
    by (simp add: scenario_company_def)
  note d = declining_history
  have l: "2 \<le> length [30, 20, 1 :: real]" by simp
  have b: "\<bar>30 :: real\<bar> \<le> max_value" "\<bar>20 :: real\<bar> \<le> max_value" "\<bar>1 :: real\<bar> \<le> max_value"
    by (simp_all add: max_value_def)
  note t1 = predictions_null_or_least_squares [of scenario_company "[]" "[]" "[]" 0 0]
  note t2 = predictions_null_or_least_squares
              [of declining_company "[30, 20, 1]" "[30, 20, 1]" "[30, 20, 1]" 0 0]
  from t1 s have "predict2026Revenue scenario_company = None"
    "predict2026Profit scenario_company = None" by blast+
  moreover from t2 d have "predict2026Revenue declining_company
                            = Some (Num (max 0 (ols_forecast [30, 20, 1])))"
    "predict2026Profit declining_company = Some (Num (ols_forecast [30, 20, 1]))" by blast+
  moreover from t2 l
  have "sse [30, 20, 1] (ols_slope [30, 20, 1]) (ols_intercept [30, 20, 1]) \<le> sse [30, 20, 1] 0 0"
    by blast
  ultimately show ?thesis
    using s d(1-4) l b by (simp add: ols_forecast_three)
qed

text \<open>
  Claim C6 as stated fails: three periods of the finite revenue \<open>2 ^ 1023\<close> have the
  least-squares forecast \<open>2 ^ 1023\<close>, but the sums overflow and the revenue prediction
  is \<open>NaN\<close>, which is not at least 0.
\<close>

theorem revenue_prediction_NaN_counterexample:
  "top_value = 2 ^ 1023
   \<and> 3 \<le> length (years saturated_company)
   \<and> map revenue (years saturated_company) = map Num [top_value, top_value, top_value]
   \<and> ols_forecast [top_value, top_value, top_value] = top_value
   \<and> predict2026Revenue saturated_company = Some NaN
   \<and> \<not> js_ge NaN (Num 0)"
proof -
  have m: "map revenue (years saturated_company) = map Num [top_value, top_value, top_value]"
    and n: "3 \<le> length (years saturated_company)"
    by (simp_all add: saturated_company_def)
  have r: "regression_next (map revenue (years saturated_company)) = NaN"
    unfolding m using saturated_regression by simp
  have p: "predict2026Revenue saturated_company = Some NaN"
    using n by (simp add: predict2026Revenue_def Let_def r js_max2_def)
  have o: "ols_forecast [top_value, top_value, top_value] = top_value"
    by (simp add: ols_forecast_three)
  have g: "\<not> js_ge NaN (Num 0)"
    by (simp add: js_ge_def js_le_def)
  have t: "top_value = 2 ^ 1023" by (rule top_value_def)
  from t n m o p g show ?thesis by blast
qed

end
